theory Spec2Isabelle
  imports Main "HOL-Library.Word" "HOL-Library.AList"
begin

section \<open>The DOM tree handed to the parsers\<close>

text \<open>
  The recognizers and parsers of QXmppExternalServiceDiscoveryIq.cpp and QXmppOmemoData.cpp
  read a \<^verbatim>\<open>QDomElement\<close>. A node is an element (tag name, namespace URI, attributes in
  document order, child nodes in document order) or a text node. The null element, which
  \<^verbatim>\<open>firstChildElement\<close> answers when there is no such child, is \<open>None\<close>.
\<close>

datatype QDomNode =
    QDomElement string string "(string \<times> string) list" "QDomNode list"
  | QDomText string

fun isElement :: "QDomNode \<Rightarrow> bool" where
  "isElement (QDomElement t ns as cs) = True"
| "isElement (QDomText s) = False"

fun tagName :: "QDomNode \<Rightarrow> string" where
  "tagName (QDomElement t ns as cs) = t"
| "tagName (QDomText s) = []"

fun namespaceURI :: "QDomNode \<Rightarrow> string" where
  "namespaceURI (QDomElement t ns as cs) = ns"
| "namespaceURI (QDomText s) = []"

fun attributes :: "QDomNode \<Rightarrow> (string \<times> string) list" where
  "attributes (QDomElement t ns as cs) = as"
| "attributes (QDomText s) = []"

fun childNodes :: "QDomNode \<Rightarrow> QDomNode list" where
  "childNodes (QDomElement t ns as cs) = cs"
| "childNodes (QDomText s) = []"

text \<open>\<^verbatim>\<open>el.attribute(name)\<close>: the value of the attribute, the empty string when absent.\<close>

definition attribute :: "QDomNode \<Rightarrow> string \<Rightarrow> string" where
  "attribute el name = (case map_of (attributes el) name of None \<Rightarrow> [] | Some v \<Rightarrow> v)"

text \<open>\<^verbatim>\<open>el.attributes().contains(name)\<close>: presence, which tells absent from empty.\<close>

definition contains :: "QDomNode \<Rightarrow> string \<Rightarrow> bool" where
  "contains el name = (map_of (attributes el) name \<noteq> None)"

text \<open>\<^verbatim>\<open>el.text()\<close>: the text of all text nodes below the element, in document order.\<close>

fun elementText :: "QDomNode \<Rightarrow> string" where
  "elementText (QDomText s) = s"
| "elementText (QDomElement t ns as cs) = concat (map elementText cs)"

definition childElements :: "QDomNode \<Rightarrow> QDomNode list" where
  "childElements el = filter isElement (childNodes el)"

text \<open>\<^verbatim>\<open>el.firstChildElement()\<close> and \<^verbatim>\<open>el.firstChildElement(tagName)\<close> of Qt.\<close>

definition firstChildElement :: "QDomNode \<Rightarrow> QDomNode option" where
  "firstChildElement el = (case childElements el of [] \<Rightarrow> None | c # cs \<Rightarrow> Some c)"

definition firstChildElementNamed :: "QDomNode \<Rightarrow> string \<Rightarrow> QDomNode option" where
  "firstChildElementNamed el name =
     (case filter (\<lambda>c. tagName c = name) (childElements el) of [] \<Rightarrow> None | c # cs \<Rightarrow> Some c)"

text \<open>
  Modelled from the spec: \<^verbatim>\<open>iterChildElements\<close> of QXmppUtils_p.h, whose body is not among
  the source files. The spec's parse source offers "iterate immediate children, optionally
  filtered by tag": with a tag name the child elements of that name, without one all child
  elements, in document order; over the null element nothing.
\<close>

definition iterChildElements :: "QDomNode option \<Rightarrow> QDomNode list" where
  "iterChildElements el = (case el of None \<Rightarrow> [] | Some e \<Rightarrow> childElements e)"

definition iterChildElementsNamed :: "QDomNode \<Rightarrow> string \<Rightarrow> QDomNode list" where
  "iterChildElementsNamed el name = filter (\<lambda>c. tagName c = name) (childElements el)"

section \<open>Value codecs\<close>

subsection \<open>Enumerations\<close>

datatype Action = Add | Delete | Modify

datatype Transport = Tcp | Udp

fun actionToString :: "Action \<Rightarrow> string" where
  "actionToString Add = ''add''"
| "actionToString Delete = ''delete''"
| "actionToString Modify = ''modify''"

definition actionFromString :: "string \<Rightarrow> Action option" where
  "actionFromString string =
     (if string = ''add'' then Some Add
      else if string = ''delete'' then Some Delete
      else if string = ''modify'' then Some Modify
      else None)"

fun transportToString :: "Transport \<Rightarrow> string" where
  "transportToString Tcp = ''tcp''"
| "transportToString Udp = ''udp''"

definition transportFromString :: "string \<Rightarrow> Transport option" where
  "transportFromString string =
     (if string = ''tcp'' then Some Tcp
      else if string = ''udp'' then Some Udp
      else None)"

subsection \<open>Integers as decimal text\<close>

text \<open>
  \<^verbatim>\<open>QString::number\<close> and \<^verbatim>\<open>QString::toInt\<close> belong to Qt. \<^verbatim>\<open>number\<close> writes the shortest
  decimal form, with a minus sign for a negative value. \<^verbatim>\<open>toInt\<close> reads an optional sign
  and decimal digits, surrounding white space ignored, and answers 0 when the text is not
  such a number or the number does not fit a 32-bit \<^verbatim>\<open>int\<close>.
\<close>

definition digitChar :: "nat \<Rightarrow> char" where
  "digitChar d = char_of (48 + d)"

definition isDigit :: "char \<Rightarrow> bool" where
  "isDigit c = (48 \<le> (of_char c :: nat) \<and> (of_char c :: nat) \<le> 57)"

definition digitValue :: "char \<Rightarrow> nat" where
  "digitValue c = of_char c - 48"

fun decimal :: "nat \<Rightarrow> string" where
  "decimal n = (if n < 10 then [digitChar n] else decimal (n div 10) @ [digitChar (n mod 10)])"

declare decimal.simps [simp del]

definition number :: "int \<Rightarrow> string" where
  "number i = (if i < 0 then CHR ''-'' # decimal (nat (- i)) else decimal (nat i))"

definition digitsValue :: "string \<Rightarrow> nat" where
  "digitsValue ds = foldl (\<lambda>acc c. 10 * acc + digitValue c) 0 ds"

definition isSpace :: "char \<Rightarrow> bool" where
  "isSpace c = (c = CHR '' '' \<or> (9 \<le> (of_char c :: nat) \<and> (of_char c :: nat) \<le> 13))"

definition trimmed :: "string \<Rightarrow> string" where
  "trimmed s = rev (dropWhile isSpace (rev (dropWhile isSpace s)))"

definition signedDigits :: "string \<Rightarrow> bool \<times> string" where
  "signedDigits s =
     (case s of
        [] \<Rightarrow> (False, [])
      | c # r \<Rightarrow> if c = CHR ''-'' then (True, r) else if c = CHR ''+'' then (False, r) else (False, s))"

definition toInt :: "string \<Rightarrow> int" where
  "toInt s =
     (let (neg, ds) = signedDigits (trimmed s) in
      if ds = [] \<or> \<not> list_all isDigit ds then 0
      else let v = (if neg then - int (digitsValue ds) else int (digitsValue ds)) in
           if - (2 ^ 31) \<le> v \<and> v < 2 ^ 31 then v else 0)"

section \<open>The XML stream writer\<close>

text \<open>
  \<^verbatim>\<open>QXmlStreamWriter\<close> is the serialize sink: it accepts calls in order. Its state is the
  sequence of calls made so far; each call appends one.
\<close>

datatype xml_event =
    StartElement string
  | DefaultNamespace string
  | Attribute string string
  | Characters string
  | EndElement

type_synonym QXmlStreamWriter = "xml_event list"

definition writeStartElement :: "QXmlStreamWriter \<Rightarrow> string \<Rightarrow> QXmlStreamWriter" where
  "writeStartElement writer qualifiedName = writer @ [StartElement qualifiedName]"

definition writeDefaultNamespace :: "QXmlStreamWriter \<Rightarrow> string \<Rightarrow> QXmlStreamWriter" where
  "writeDefaultNamespace writer namespaceUri = writer @ [DefaultNamespace namespaceUri]"

definition writeAttribute :: "QXmlStreamWriter \<Rightarrow> string \<Rightarrow> string \<Rightarrow> QXmlStreamWriter" where
  "writeAttribute writer qualifiedName val = writer @ [Attribute qualifiedName val]"

definition writeCharacters :: "QXmlStreamWriter \<Rightarrow> string \<Rightarrow> QXmlStreamWriter" where
  "writeCharacters writer txt = writer @ [Characters txt]"

definition writeEndElement :: "QXmlStreamWriter \<Rightarrow> QXmlStreamWriter" where
  "writeEndElement writer = writer @ [EndElement]"

text \<open>
  \<^verbatim>\<open>QXmpp::Private::writeOptionalXmlAttribute\<close> is declared in QXmppUtils_p.h; its body is
  not among the source files, and the spec does not describe it. It is modelled as what its
  name says and what its callers rely on: the attribute is written when the value is not
  empty, and nothing is written for an empty value. \<^verbatim>\<open>QXmppOmemoDeviceElement::toXml\<close> spells
  the same rule out by hand for the label
  (\<^verbatim>\<open>if (!m_label.isEmpty()) writer->writeAttribute(...)\<close>), and \<^verbatim>\<open>actionToString\<close> and
  \<^verbatim>\<open>transportToString\<close> hand it the null string for a value outside the enumeration.
  Every statement below that depends on the empty-value case says so.
\<close>

definition writeOptionalXmlAttribute ::
  "QXmlStreamWriter \<Rightarrow> string \<Rightarrow> string \<Rightarrow> QXmlStreamWriter" where
  "writeOptionalXmlAttribute writer qualifiedName val =
     (if val \<noteq> [] then writeAttribute writer qualifiedName val else writer)"

subsection \<open>Reading a written stream back\<close>

text \<open>
  The XML reader is the other collaborator: it turns what the writer was told into the
  tree the parsers see. An element that declares no default namespace is in the one of
  the element it is written inside (none at the top level); attributes and children keep
  their order; empty character data leaves no text node. The elements still open are kept
  innermost first.
\<close>

type_synonym openElement = "string \<times> string \<times> (string \<times> string) list \<times> QDomNode list"

fun inheritedNamespace :: "openElement list \<Rightarrow> string" where
  "inheritedNamespace [] = []"
| "inheritedNamespace ((t, ns, as, cs) # st) = ns"

fun domBuild :: "openElement list \<Rightarrow> QDomNode list \<Rightarrow> xml_event list \<Rightarrow> QDomNode list" where
  "domBuild st out [] = out"
| "domBuild st out (StartElement t # es) =
     domBuild ((t, inheritedNamespace st, [], []) # st) out es"
| "domBuild ((t, ns, as, cs) # st) out (DefaultNamespace u # es) =
     domBuild ((t, u, as, cs) # st) out es"
| "domBuild ((t, ns, as, cs) # st) out (Attribute n v # es) =
     domBuild ((t, ns, as @ [(n, v)], cs) # st) out es"
| "domBuild ((t, ns, as, cs) # st) out (Characters s # es) =
     domBuild ((t, ns, as, (if s = [] then cs else cs @ [QDomText s])) # st) out es"
| "domBuild [(t, ns, as, cs)] out (EndElement # es) =
     domBuild [] (out @ [QDomElement t ns as cs]) es"
| "domBuild ((t, ns, as, cs) # (t', ns', as', cs') # st) out (EndElement # es) =
     domBuild ((t', ns', as', cs' @ [QDomElement t ns as cs]) # st) out es"
| "domBuild [] out (e # es) = domBuild [] out es"

definition readElements :: "QXmlStreamWriter \<Rightarrow> QDomNode list" where
  "readElements writer = domBuild [] [] writer"

text \<open>The single top-level element of a stream, when it has exactly one.\<close>

definition readElement :: "QXmlStreamWriter \<Rightarrow> QDomNode option" where
  "readElement writer = (case readElements writer of [el] \<Rightarrow> Some el | _ \<Rightarrow> None)"

text \<open>How many elements a stream opens, and the attributes it writes, in order.\<close>

fun elementsOpened :: "xml_event list \<Rightarrow> nat" where
  "elementsOpened [] = 0"
| "elementsOpened (StartElement t # es) = Suc (elementsOpened es)"
| "elementsOpened (e # es) = elementsOpened es"

fun attributesWritten :: "xml_event list \<Rightarrow> (string \<times> string) list" where
  "attributesWritten [] = []"
| "attributesWritten (Attribute n v # es) = (n, v) # attributesWritten es"
| "attributesWritten (e # es) = attributesWritten es"

section \<open>The service-discovery payload (QXmppExternalServiceDiscoveryIq.cpp)\<close>

text \<open>
  \<^verbatim>\<open>QXmppExternalServicePrivate\<close>. The port is a C++ \<^verbatim>\<open>int\<close>, a 32-bit signed value. The
  type of \<^verbatim>\<open>QDateTime\<close> values is left open (\<open>'dt\<close>): \<^verbatim>\<open>QXmppUtils::datetimeFromString\<close> and
  \<^verbatim>\<open>QDateTime::toString(Qt::ISODateWithMs)\<close> are not among the source files and are
  parameters of \<open>parse\<close> and \<open>toXml\<close>.
\<close>

record 'dt QXmppExternalService =
  host :: string
  type :: string
  action :: "Action option"
  expires :: "'dt option"
  name :: "string option"
  password :: "string option"
  port :: "32 word option"
  restricted :: "bool option"
  transport :: "Transport option"
  username :: "string option"

text \<open>The default-constructed value: empty strings, every optional unset.\<close>

definition newExternalService :: "'dt QXmppExternalService" where
  "newExternalService =
     \<lparr>host = [], type = [], action = None, expires = None, name = None, password = None,
      port = None, restricted = None, transport = None, username = None\<rparr>"

definition isExternalService :: "QDomNode \<Rightarrow> bool" where
  "isExternalService element =
     (if tagName element \<noteq> ''service'' then False
      else attribute element ''host'' \<noteq> [] \<and> attribute element ''type'' \<noteq> [])"

text \<open>
  \<^verbatim>\<open>QXmppExternalService::parse\<close> changes the object it is called on: the second argument is
  the object before the call, the result the object after it.
\<close>

definition QXmppExternalService_parse ::
  "(string \<Rightarrow> 'dt) \<Rightarrow> QDomNode \<Rightarrow> 'dt QXmppExternalService \<Rightarrow> 'dt QXmppExternalService" where
  "QXmppExternalService_parse datetimeFromString el d0 =
     (let d = d0\<lparr>host := attribute el ''host''\<rparr>;
          d = d\<lparr>type := attribute el ''type''\<rparr>;
          d = d\<lparr>action := actionFromString (attribute el ''action'')\<rparr>;
          d = (if contains el ''expires''
               then d\<lparr>expires := Some (datetimeFromString (attribute el ''expires''))\<rparr> else d);
          d = (if contains el ''name'' then d\<lparr>name := Some (attribute el ''name'')\<rparr> else d);
          d = (if contains el ''password''
               then d\<lparr>password := Some (attribute el ''password'')\<rparr> else d);
          d = (if contains el ''port''
               then d\<lparr>port := Some (word_of_int (toInt (attribute el ''port'')))\<rparr> else d);
          d = (if contains el ''restricted''
               then (let restrictedStr = attribute el ''restricted'' in
                     d\<lparr>restricted := Some (restrictedStr = ''true'' \<or> restrictedStr = ''1'')\<rparr>)
               else d);
          d = d\<lparr>transport := transportFromString (attribute el ''transport'')\<rparr>;
          d = (if contains el ''username''
               then d\<lparr>username := Some (attribute el ''username'')\<rparr> else d)
      in d)"

definition QXmppExternalService_toXml ::
  "('dt \<Rightarrow> string) \<Rightarrow> 'dt QXmppExternalService \<Rightarrow> QXmlStreamWriter \<Rightarrow> QXmlStreamWriter" where
  "QXmppExternalService_toXml datetimeToString d writer =
     (let w = writeStartElement writer ''service'';
          w = writeOptionalXmlAttribute w ''host'' (host d);
          w = writeOptionalXmlAttribute w ''type'' (type d);
          w = (case action d of None \<Rightarrow> w
               | Some a \<Rightarrow> writeOptionalXmlAttribute w ''action'' (actionToString a));
          w = (case expires d of None \<Rightarrow> w
               | Some e \<Rightarrow> writeOptionalXmlAttribute w ''expires'' (datetimeToString e));
          w = (case name d of None \<Rightarrow> w
               | Some n \<Rightarrow> writeOptionalXmlAttribute w ''name'' n);
          w = (case password d of None \<Rightarrow> w
               | Some p \<Rightarrow> writeOptionalXmlAttribute w ''password'' p);
          w = (case port d of None \<Rightarrow> w
               | Some p \<Rightarrow> writeOptionalXmlAttribute w ''port'' (number (sint p)));
          w = (case restricted d of None \<Rightarrow> w
               | Some r \<Rightarrow> writeOptionalXmlAttribute w ''restricted'' (if r then ''true'' else ''false''));
          w = (case transport d of None \<Rightarrow> w
               | Some t \<Rightarrow> writeOptionalXmlAttribute w ''transport'' (transportToString t));
          w = (case username d of None \<Rightarrow> w
               | Some u \<Rightarrow> writeOptionalXmlAttribute w ''username'' u)
      in writeEndElement w)"

text \<open>
  \<^verbatim>\<open>QXmppExternalServiceDiscoveryIq::parseElementFromChild\<close>: the list of services of the IQ
  before and after the call. \<^verbatim>\<open>firstChildElement(element, u"services")\<close> is the helper of
  QXmppUtils_p.h with a tag name only, the first child element of that name.
\<close>

definition parseElementFromChild ::
  "(string \<Rightarrow> 'dt) \<Rightarrow> QDomNode \<Rightarrow> 'dt QXmppExternalService list \<Rightarrow> 'dt QXmppExternalService list" where
  "parseElementFromChild datetimeFromString element externalServices =
     foldl (\<lambda>services el.
              if isExternalService el
              then services @ [QXmppExternalService_parse datetimeFromString el newExternalService]
              else services)
       externalServices
       (iterChildElements (firstChildElementNamed element ''services''))"

section \<open>The device-identity payloads (QXmppOmemoData.cpp)\<close>

text \<open>
  \<^verbatim>\<open>ns_omemo_2\<close> is a constant of QXmppConstants_p.h, which is not among the source files;
  its text is the namespace of XEP-0384. The statements below use of it only that it is not
  the empty string, and in examples that it differs from another namespace.
\<close>

definition ns_omemo_2 :: string where
  "ns_omemo_2 = ''urn:xmpp:omemo:2''"

subsection \<open>QXmppOmemoDeviceElement\<close>

text \<open>The members are \<^verbatim>\<open>uint32_t m_id\<close> (0 when unset) and \<^verbatim>\<open>QString m_label\<close>.\<close>

record QXmppOmemoDeviceElement =
  m_id :: "32 word"
  m_label :: string

definition newOmemoDeviceElement :: QXmppOmemoDeviceElement where
  "newOmemoDeviceElement = \<lparr>m_id = 0, m_label = []\<rparr>"

text \<open>\<^verbatim>\<open>operator==\<close> compares the IDs only.\<close>

definition deviceElementEq :: "QXmppOmemoDeviceElement \<Rightarrow> QXmppOmemoDeviceElement \<Rightarrow> bool" where
  "deviceElementEq this other = (m_id this = m_id other)"

text \<open>
  \<^verbatim>\<open>m_id = element.attribute("id").toInt()\<close> converts the \<^verbatim>\<open>int\<close> to \<^verbatim>\<open>uint32_t\<close>, modulo
  \<open>2 ^ 32\<close>; \<^verbatim>\<open>QString::number(m_id)\<close> writes the unsigned value.
\<close>

definition QXmppOmemoDeviceElement_parse ::
  "QDomNode \<Rightarrow> QXmppOmemoDeviceElement \<Rightarrow> QXmppOmemoDeviceElement" where
  "QXmppOmemoDeviceElement_parse element this =
     this\<lparr>m_id := word_of_int (toInt (attribute element ''id'')),
          m_label := attribute element ''label''\<rparr>"

definition QXmppOmemoDeviceElement_toXml ::
  "QXmppOmemoDeviceElement \<Rightarrow> QXmlStreamWriter \<Rightarrow> QXmlStreamWriter" where
  "QXmppOmemoDeviceElement_toXml this writer =
     (let w = writeStartElement writer ''device'';
          w = writeAttribute w ''id'' (number (uint (m_id this)));
          w = (if m_label this \<noteq> [] then writeAttribute w ''label'' (m_label this) else w)
      in writeEndElement w)"

definition isOmemoDeviceElement :: "QDomNode \<Rightarrow> bool" where
  "isOmemoDeviceElement element =
     (tagName element = ''device'' \<and> namespaceURI element = ns_omemo_2)"

subsection \<open>QXmppOmemoDeviceList\<close>

text \<open>The list is a \<^verbatim>\<open>QList\<close> of device elements; \<open>parse\<close> appends to the list it is called on.\<close>

definition QXmppOmemoDeviceList_parse ::
  "QDomNode \<Rightarrow> QXmppOmemoDeviceElement list \<Rightarrow> QXmppOmemoDeviceElement list" where
  "QXmppOmemoDeviceList_parse element this =
     foldl (\<lambda>l device. l @ [QXmppOmemoDeviceElement_parse device newOmemoDeviceElement])
       this (iterChildElementsNamed element ''device'')"

definition QXmppOmemoDeviceList_toXml ::
  "QXmppOmemoDeviceElement list \<Rightarrow> QXmlStreamWriter \<Rightarrow> QXmlStreamWriter" where
  "QXmppOmemoDeviceList_toXml this writer =
     (let w = writeStartElement writer ''devices'';
          w = writeDefaultNamespace w ns_omemo_2;
          w = foldl (\<lambda>w device. QXmppOmemoDeviceElement_toXml device w) w this
      in writeEndElement w)"

definition isOmemoDeviceList :: "QDomNode \<Rightarrow> bool" where
  "isOmemoDeviceList element =
     (tagName element = ''devices'' \<and> namespaceURI element = ns_omemo_2)"

subsection \<open>QXmppOmemoDeviceBundle\<close>

text \<open>
  Keys are byte strings. \<^verbatim>\<open>QHash<uint32_t, QByteArray> m_publicPreKeys\<close> is kept as an
  association list with one entry per ID: \<^verbatim>\<open>insert\<close> replaces the value of an ID that is
  there and adds one that is not, \<^verbatim>\<open>remove\<close> deletes it. Qt leaves the order in which a hash
  is iterated open; \<open>toXml\<close> iterates in the order of the list, so a statement for every such
  list covers every order. \<^verbatim>\<open>QByteArray::toBase64\<close> and \<^verbatim>\<open>QByteArray::fromBase64\<close>
  (after \<^verbatim>\<open>toLatin1\<close>) belong to Qt and are parameters of \<open>toXml\<close> and \<open>parse\<close>.
\<close>

type_synonym QByteArray = "8 word list"

record QXmppOmemoDeviceBundle =
  m_publicIdentityKey :: QByteArray
  m_signedPublicPreKey :: QByteArray
  m_signedPublicPreKeyId :: "32 word"
  m_signedPublicPreKeySignature :: QByteArray
  m_publicPreKeys :: "(32 word \<times> QByteArray) list"

definition newOmemoDeviceBundle :: QXmppOmemoDeviceBundle where
  "newOmemoDeviceBundle =
     \<lparr>m_publicIdentityKey = [], m_signedPublicPreKey = [], m_signedPublicPreKeyId = 0,
      m_signedPublicPreKeySignature = [], m_publicPreKeys = []\<rparr>"

definition addPublicPreKey ::
  "32 word \<Rightarrow> QByteArray \<Rightarrow> QXmppOmemoDeviceBundle \<Rightarrow> QXmppOmemoDeviceBundle" where
  "addPublicPreKey ident key this =
     this\<lparr>m_publicPreKeys := AList.update ident key (m_publicPreKeys this)\<rparr>"

definition removePublicPreKey :: "32 word \<Rightarrow> QXmppOmemoDeviceBundle \<Rightarrow> QXmppOmemoDeviceBundle" where
  "removePublicPreKey ident this =
     this\<lparr>m_publicPreKeys := AList.delete ident (m_publicPreKeys this)\<rparr>"

text \<open>The text of a possibly null element: the null element has none.\<close>

definition nullableText :: "QDomNode option \<Rightarrow> string" where
  "nullableText el = (case el of None \<Rightarrow> [] | Some e \<Rightarrow> elementText e)"

text \<open>
  The loop over \<^verbatim>\<open>firstChildElement("pk")\<close> and \<^verbatim>\<open>nextSiblingElement("pk")\<close> visits the child
  elements named pk in document order.
\<close>

definition QXmppOmemoDeviceBundle_parse ::
  "(string \<Rightarrow> QByteArray) \<Rightarrow> QDomNode \<Rightarrow> QXmppOmemoDeviceBundle \<Rightarrow> QXmppOmemoDeviceBundle" where
  "QXmppOmemoDeviceBundle_parse fromBase64 element this =
     (let b = this\<lparr>m_publicIdentityKey :=
                     fromBase64 (nullableText (firstChildElementNamed element ''ik''))\<rparr>;
          b = (case firstChildElementNamed element ''spk'' of
                 None \<Rightarrow> b
               | Some signedPublicPreKeyElement \<Rightarrow>
                   b\<lparr>m_signedPublicPreKeyId :=
                       word_of_int (toInt (attribute signedPublicPreKeyElement ''id'')),
                     m_signedPublicPreKey :=
                       fromBase64 (elementText signedPublicPreKeyElement)\<rparr>);
          b = b\<lparr>m_signedPublicPreKeySignature :=
                  fromBase64 (nullableText (firstChildElementNamed element ''spks''))\<rparr>
      in case firstChildElementNamed element ''prekeys'' of
           None \<Rightarrow> b
         | Some publicPreKeysElement \<Rightarrow>
             foldl (\<lambda>b publicPreKeyElement.
                      addPublicPreKey (word_of_int (toInt (attribute publicPreKeyElement ''id'')))
                        (fromBase64 (elementText publicPreKeyElement)) b)
               b (filter (\<lambda>c. tagName c = ''pk'') (childElements publicPreKeysElement)))"

definition QXmppOmemoDeviceBundle_toXml ::
  "(QByteArray \<Rightarrow> string) \<Rightarrow> QXmppOmemoDeviceBundle \<Rightarrow> QXmlStreamWriter \<Rightarrow> QXmlStreamWriter" where
  "QXmppOmemoDeviceBundle_toXml toBase64 this writer =
     (let w = writeStartElement writer ''bundle'';
          w = writeDefaultNamespace w ns_omemo_2;
          w = writeStartElement w ''ik'';
          w = writeCharacters w (toBase64 (m_publicIdentityKey this));
          w = writeEndElement w;
          w = writeStartElement w ''spk'';
          w = writeAttribute w ''id'' (number (uint (m_signedPublicPreKeyId this)));
          w = writeCharacters w (toBase64 (m_signedPublicPreKey this));
          w = writeEndElement w;
          w = writeStartElement w ''spks'';
          w = writeCharacters w (toBase64 (m_signedPublicPreKeySignature this));
          w = writeEndElement w;
          w = writeStartElement w ''prekeys'';
          w = foldl (\<lambda>w (ident, key).
                       (let w = writeStartElement w ''pk'';
                            w = writeAttribute w ''id'' (number (uint ident));
                            w = writeCharacters w (toBase64 key)
                        in writeEndElement w))
                w (m_publicPreKeys this);
          w = writeEndElement w
      in writeEndElement w)"

definition isOmemoDeviceBundle :: "QDomNode \<Rightarrow> bool" where
  "isOmemoDeviceBundle element =
     (tagName element = ''bundle'' \<and> namespaceURI element = ns_omemo_2)"

subsection \<open>QXmppOmemoIq\<close>

text \<open>
  \<^verbatim>\<open>QXmppOmemoElement::isOmemoElement\<close> is not among the source files: the recognizer of the
  wrapped payload is a parameter.
\<close>

definition isOmemoIq :: "(QDomNode \<Rightarrow> bool) \<Rightarrow> QDomNode \<Rightarrow> bool" where
  "isOmemoIq isOmemoElement element =
     (case firstChildElement element of
        None \<Rightarrow> False
      | Some child \<Rightarrow> isOmemoElement child)"

section \<open>Notions used in the statements\<close>

text \<open>
  The attributes that \<^verbatim>\<open>QXmppExternalService::toXml\<close> writes, as a list in the order written:
  what one call of \<open>writeOptionalXmlAttribute\<close> adds, what a guarded call for an optional
  field adds, and all of them together. Lemma \<open>QXmppExternalService_toXml_events\<close> below
  proves that the function translated from the source writes exactly these.
\<close>

definition optionalAttribute :: "string \<Rightarrow> string \<Rightarrow> (string \<times> string) list" where
  "optionalAttribute n v = (if v \<noteq> [] then [(n, v)] else [])"

definition optionalField :: "string \<Rightarrow> string option \<Rightarrow> (string \<times> string) list" where
  "optionalField n field = (case field of None \<Rightarrow> [] | Some v \<Rightarrow> optionalAttribute n v)"

definition serviceAttributes ::
  "('dt \<Rightarrow> string) \<Rightarrow> 'dt QXmppExternalService \<Rightarrow> (string \<times> string) list" where
  "serviceAttributes datetimeToString d =
     optionalAttribute ''host'' (host d) @
     optionalAttribute ''type'' (type d) @
     optionalField ''action'' (map_option actionToString (action d)) @
     optionalField ''expires'' (map_option datetimeToString (expires d)) @
     optionalField ''name'' (name d) @
     optionalField ''password'' (password d) @
     optionalField ''port'' (map_option (\<lambda>p. number (sint p)) (port d)) @
     optionalField ''restricted'' (map_option (\<lambda>r. if r then ''true'' else ''false'') (restricted d)) @
     optionalField ''transport'' (map_option transportToString (transport d)) @
     optionalField ''username'' (username d)"

text \<open>The events of a list of attributes.\<close>

definition attributeEvents :: "(string \<times> string) list \<Rightarrow> xml_event list" where
  "attributeEvents as = map (\<lambda>(n, v). Attribute n v) as"


text \<open>
  Serializing a value into an empty stream, reading the stream back and parsing the element
  into a default-constructed object; \<open>None\<close> when the stream is not one element.
\<close>

definition reparseExternalService ::
  "(string \<Rightarrow> 'dt) \<Rightarrow> ('dt \<Rightarrow> string) \<Rightarrow> 'dt QXmppExternalService \<Rightarrow> 'dt QXmppExternalService option" where
  "reparseExternalService datetimeFromString datetimeToString d =
     (case readElement (QXmppExternalService_toXml datetimeToString d []) of
        None \<Rightarrow> None
      | Some el \<Rightarrow> Some (QXmppExternalService_parse datetimeFromString el newExternalService))"

definition reparseDeviceElement :: "QXmppOmemoDeviceElement \<Rightarrow> QXmppOmemoDeviceElement option" where
  "reparseDeviceElement d =
     (case readElement (QXmppOmemoDeviceElement_toXml d []) of
        None \<Rightarrow> None
      | Some el \<Rightarrow> Some (QXmppOmemoDeviceElement_parse el newOmemoDeviceElement))"

definition reparseDeviceList ::
  "QXmppOmemoDeviceElement list \<Rightarrow> QXmppOmemoDeviceElement list option" where
  "reparseDeviceList l =
     (case readElement (QXmppOmemoDeviceList_toXml l []) of
        None \<Rightarrow> None
      | Some el \<Rightarrow> Some (QXmppOmemoDeviceList_parse el []))"

definition reparseDeviceBundle ::
  "(string \<Rightarrow> QByteArray) \<Rightarrow> (QByteArray \<Rightarrow> string) \<Rightarrow> QXmppOmemoDeviceBundle \<Rightarrow>
     QXmppOmemoDeviceBundle option" where
  "reparseDeviceBundle fromBase64 toBase64 b =
     (case readElement (QXmppOmemoDeviceBundle_toXml toBase64 b []) of
        None \<Rightarrow> None
      | Some el \<Rightarrow> Some (QXmppOmemoDeviceBundle_parse fromBase64 el newOmemoDeviceBundle))"

text \<open>
  Whether a recognizer accepts the element that a stream holds.
\<close>

definition recognizedAs :: "(QDomNode \<Rightarrow> bool) \<Rightarrow> QXmlStreamWriter \<Rightarrow> bool" where
  "recognizedAs recognizer writer =
     (case readElement writer of None \<Rightarrow> False | Some el \<Rightarrow> recognizer el)"

text \<open>The nodes that stand for character data, and the tree of a written bundle.\<close>

definition textNodes :: "string \<Rightarrow> QDomNode list" where
  "textNodes s = (if s = [] then [] else [QDomText s])"

definition pkEvents :: "(QByteArray \<Rightarrow> string) \<Rightarrow> 32 word \<times> QByteArray \<Rightarrow> xml_event list" where
  "pkEvents toBase64 p =
     [StartElement ''pk'', Attribute ''id'' (number (uint (fst p))),
      Characters (toBase64 (snd p)), EndElement]"

definition pkNode :: "(QByteArray \<Rightarrow> string) \<Rightarrow> 32 word \<times> QByteArray \<Rightarrow> QDomNode" where
  "pkNode toBase64 p =
     QDomElement ''pk'' ns_omemo_2 [(''id'', number (uint (fst p)))] (textNodes (toBase64 (snd p)))"

definition bundleNode :: "(QByteArray \<Rightarrow> string) \<Rightarrow> QXmppOmemoDeviceBundle \<Rightarrow> QDomNode" where
  "bundleNode toBase64 b =
     QDomElement ''bundle'' ns_omemo_2 []
       [QDomElement ''ik'' ns_omemo_2 [] (textNodes (toBase64 (m_publicIdentityKey b))),
        QDomElement ''spk'' ns_omemo_2 [(''id'', number (uint (m_signedPublicPreKeyId b)))]
          (textNodes (toBase64 (m_signedPublicPreKey b))),
        QDomElement ''spks'' ns_omemo_2 [] (textNodes (toBase64 (m_signedPublicPreKeySignature b))),
        QDomElement ''prekeys'' ns_omemo_2 [] (map (pkNode toBase64) (m_publicPreKeys b))]"

subsection \<open>Codecs to instantiate the parameters with\<close>

text \<open>
  The statements below hold for whatever the Qt codecs compute. To run them on concrete
  values the parameters are instantiated: the recognizer of the wrapped OMEMO payload by a
  test of tag and namespace, the Base64 codec by the standard alphabet (A to Z, a to z, 0 to 9,
  plus and slash) with padding, decoded the way \<^verbatim>\<open>QByteArray::fromBase64\<close> does by default
  (characters outside the alphabet are skipped, every eight collected bits give a byte), and
  the timestamp codec by keeping a timestamp as its ISO text.
\<close>

definition exampleOmemoElement :: "QDomNode \<Rightarrow> bool" where
  "exampleOmemoElement element =
     (tagName element = ''encrypted'' \<and> namespaceURI element = ns_omemo_2)"


definition base64Char :: "nat \<Rightarrow> char" where
  "base64Char n =
     (if n < 26 then char_of (65 + n)
      else if n < 52 then char_of (97 + (n - 26))
      else if n < 62 then char_of (48 + (n - 52))
      else if n = 62 then CHR ''+''
      else CHR ''/'')"

fun toBase64 :: "QByteArray \<Rightarrow> string" where
  "toBase64 [] = []"
| "toBase64 [a] =
     [base64Char (unat a div 4), base64Char (unat a mod 4 * 16), CHR ''='', CHR ''='']"
| "toBase64 [a, b] =
     [base64Char (unat a div 4), base64Char (unat a mod 4 * 16 + unat b div 16),
      base64Char (unat b mod 16 * 4), CHR ''='']"
| "toBase64 (a # b # c # bs) =
     [base64Char (unat a div 4), base64Char (unat a mod 4 * 16 + unat b div 16),
      base64Char (unat b mod 16 * 4 + unat c div 64), base64Char (unat c mod 64)] @ toBase64 bs"

definition base64Value :: "char \<Rightarrow> nat option" where
  "base64Value ch =
     (let n = (of_char ch :: nat) in
      if 65 \<le> n \<and> n \<le> 90 then Some (n - 65)
      else if 97 \<le> n \<and> n \<le> 122 then Some (n - 97 + 26)
      else if 48 \<le> n \<and> n \<le> 57 then Some (n - 48 + 52)
      else if ch = CHR ''+'' then Some 62
      else if ch = CHR ''/'' then Some 63
      else None)"

fun fromBase64_loop :: "nat \<Rightarrow> nat \<Rightarrow> string \<Rightarrow> QByteArray" where
  "fromBase64_loop buf nbits [] = []"
| "fromBase64_loop buf nbits (ch # input) =
     (case base64Value ch of
        None \<Rightarrow> fromBase64_loop buf nbits input
      | Some d \<Rightarrow>
          (let buf = buf * 64 + d; nbits = nbits + 6 in
           if nbits \<ge> 8
           then of_nat (buf div 2 ^ (nbits - 8)) #
                  fromBase64_loop (buf mod 2 ^ (nbits - 8)) (nbits - 8) input
           else fromBase64_loop buf nbits input))"

definition fromBase64 :: "string \<Rightarrow> QByteArray" where
  "fromBase64 input = fromBase64_loop 0 0 input"

section \<open>Decimal text round trip\<close>

lemma digitChar_props: "d < 10 \<Longrightarrow> isDigit (digitChar d) \<and> digitValue (digitChar d) = d"
  by (simp add: digitChar_def isDigit_def digitValue_def)

lemma isDigit_not_space: "isDigit c \<Longrightarrow> \<not> isSpace c"
  by (auto simp: isDigit_def isSpace_def)

lemma isDigit_not_sign: "isDigit c \<Longrightarrow> c \<noteq> CHR ''-'' \<and> c \<noteq> CHR ''+''"
  by (auto simp: isDigit_def)

lemma decimal_not_Nil: "decimal n \<noteq> []"
  by (subst decimal.simps) simp

lemma decimal_all_digits: "list_all isDigit (decimal n)"
proof (induction n rule: decimal.induct)
  case (1 n)
  show ?case
  proof (cases "n < 10")
    case True
    then show ?thesis by (subst decimal.simps) (simp add: digitChar_props)
  next
    case False
    with 1 show ?thesis by (subst decimal.simps) (simp add: digitChar_props)
  qed
qed

lemma digitsValue_snoc: "digitsValue (ds @ [c]) = 10 * digitsValue ds + digitValue c"
  by (simp add: digitsValue_def)

lemma digitsValue_decimal: "digitsValue (decimal n) = n"
proof (induction n rule: decimal.induct)
  case (1 n)
  show ?case
  proof (cases "n < 10")
    case True
    then show ?thesis by (subst decimal.simps) (simp add: digitsValue_def digitChar_props)
  next
    case False
    with 1 show ?thesis
      by (subst decimal.simps) (simp add: digitsValue_snoc digitChar_props)
  qed
qed

lemma trimmed_id: "s \<noteq> [] \<Longrightarrow> \<not> isSpace (hd s) \<Longrightarrow> \<not> isSpace (last s) \<Longrightarrow> trimmed s = s"
proof -
  assume a: "s \<noteq> []" "\<not> isSpace (hd s)" "\<not> isSpace (last s)"
  then have 1: "dropWhile isSpace s = s" by (cases s) auto
  from a have "rev s \<noteq> []" "\<not> isSpace (hd (rev s))" by (auto simp: hd_rev)
  then have 2: "dropWhile isSpace (rev s) = rev s" by (cases "rev s") auto
  show ?thesis by (simp add: trimmed_def 1 2)
qed

lemma decimal_hd_last: "isDigit (hd (decimal n)) \<and> isDigit (last (decimal n))"
proof -
  have "list_all isDigit (decimal n)" by (rule decimal_all_digits)
  moreover have "decimal n \<noteq> []" by (rule decimal_not_Nil)
  ultimately show ?thesis by (simp add: list_all_iff)
qed

lemma toInt_decimal: "n < 2 ^ 31 \<Longrightarrow> toInt (decimal n) = int n"
proof -
  assume n: "n < 2 ^ 31"
  have t: "trimmed (decimal n) = decimal n"
    using decimal_hd_last [of n] decimal_not_Nil [of n] by (intro trimmed_id) (auto dest: isDigit_not_space)
  have s: "signedDigits (decimal n) = (False, decimal n)"
    using decimal_hd_last [of n] decimal_not_Nil [of n]
    by (cases "decimal n") (auto simp: signedDigits_def dest: isDigit_not_sign)
  from n have "int n < 2 ^ 31" by (metis of_nat_less_iff of_nat_numeral of_nat_power)
  then show ?thesis
    by (simp add: toInt_def t s decimal_not_Nil decimal_all_digits digitsValue_decimal)
qed

lemma toInt_minus_decimal: "n \<le> 2 ^ 31 \<Longrightarrow> toInt (CHR ''-'' # decimal n) = - int n"
proof -
  assume n: "n \<le> 2 ^ 31"
  have t: "trimmed (CHR ''-'' # decimal n) = CHR ''-'' # decimal n"
    using decimal_hd_last [of n] decimal_not_Nil [of n]
    by (intro trimmed_id) (auto dest: isDigit_not_space simp: isSpace_def)
  have s: "signedDigits (CHR ''-'' # decimal n) = (True, decimal n)"
    by (simp add: signedDigits_def)
  from n have "int n \<le> 2 ^ 31" by (metis of_nat_le_iff of_nat_numeral of_nat_power)
  then show ?thesis
    by (simp add: toInt_def t s decimal_not_Nil decimal_all_digits digitsValue_decimal)
qed

lemma toInt_number: "- (2 ^ 31) \<le> i \<Longrightarrow> i < 2 ^ 31 \<Longrightarrow> toInt (number i) = i"
  using toInt_decimal [of "nat i"] toInt_minus_decimal [of "nat (- i)"]
  by (auto simp: number_def nat_less_iff nat_le_iff)

lemma toInt_range: "- (2 ^ 31) \<le> toInt s \<and> toInt s < 2 ^ 31"
  by (simp add: toInt_def Let_def split: prod.splits)

lemma sint32_range: "- (2 ^ 31) \<le> sint (p :: 32 word) \<and> sint p < 2 ^ 31"
  using sint_ge [of p] sint_lt [of p] by simp

lemma uint32_toInt:
  assumes "uint (w :: 32 word) < 2 ^ 31"
  shows "word_of_int (toInt (number (uint w))) = w"
proof -
  have "(- (2 ^ 31) :: int) \<le> 0" by simp
  also have "(0::int) \<le> uint w" by simp
  finally have "- (2 ^ 31) \<le> uint w" .
  from this assms have "toInt (number (uint w)) = uint w" by (rule toInt_number)
  then show ?thesis by simp
qed







lemma number_0: "number 0 = ''0''"
  by code_simp

section \<open>The standard Base64 codec\<close>

text \<open>Decoding inverts encoding, for every byte string.\<close>

lemma base64Value_base64Char: "n < 64 \<Longrightarrow> base64Value (base64Char n) = Some n"
  by (auto simp: base64Value_def base64Char_def Let_def)

lemma base64Value_pad: "base64Value CHR ''='' = None"
  by (simp add: base64Value_def)

lemma sextets:
  fixes a b c :: nat
  assumes "a < 256" "b < 256" "c < 256"
  shows "a div 4 < 64" "a mod 4 * 16 + b div 16 < 64" "b mod 16 * 4 + c div 64 < 64" "c mod 64 < 64"
    "a mod 4 * 16 < 64" "b mod 16 * 4 < 64"
  using assms by linarith+

lemma join1:
  fixes a b :: nat
  shows "a div 4 * 64 + (a mod 4 * 16 + b div 16) = a * 16 + b div 16"
  using div_mult_mod_eq [of a 4] by linarith

lemma join2:
  fixes a b c :: nat
  assumes "b < 256"
  shows "(a * 16 + b div 16) mod 16 * 64 + (b mod 16 * 4 + c div 64) = b * 4 + c div 64"
proof -
  from assms have "b div 16 < 16" by linarith
  then have "(a * 16 + b div 16) mod 16 = b div 16" by simp
  then show ?thesis using div_mult_mod_eq [of b 16] by linarith
qed

lemma join3:
  fixes b c :: nat
  assumes "c < 256"
  shows "(b * 4 + c div 64) mod 4 * 64 + c mod 64 = c"
proof -
  from assms have "c div 64 < 4" by linarith
  then have "(b * 4 + c div 64) mod 4 = c div 64" by simp
  then show ?thesis using div_mult_mod_eq [of c 64] by linarith
qed

lemma out1:
  fixes a b :: nat
  assumes "b < 256"
  shows "(a * 16 + b div 16) div 16 = a"
proof -
  from assms have "b div 16 < 16" by linarith
  then show ?thesis by simp
qed

lemma out2:
  fixes b c :: nat
  assumes "c < 256"
  shows "(b * 4 + c div 64) div 4 = b"
proof -
  from assms have "c div 64 < 4" by linarith
  then show ?thesis by simp
qed

lemma loop_skip: "base64Value ch = None \<Longrightarrow> fromBase64_loop buf nbits (ch # input) = fromBase64_loop buf nbits input"
  by simp

lemma loop_collect:
  "base64Value ch = Some d \<Longrightarrow> nbits < 2 \<Longrightarrow>
     fromBase64_loop buf nbits (ch # input) = fromBase64_loop (buf * 64 + d) (nbits + 6) input"
  by (simp add: Let_def)

lemma loop_emit:
  "base64Value ch = Some d \<Longrightarrow> 2 \<le> nbits \<Longrightarrow>
     fromBase64_loop buf nbits (ch # input) =
       of_nat ((buf * 64 + d) div 2 ^ (nbits - 2)) #
         fromBase64_loop ((buf * 64 + d) mod 2 ^ (nbits - 2)) (nbits - 2) input"
  by (simp add: Let_def)

lemma unat8: "unat (a :: 8 word) < 256"
  using unsigned_less [of a, where 'a = nat] by simp

lemma group3:
  fixes a b c :: "8 word"
  shows "fromBase64_loop 0 0
           (base64Char (unat a div 4) # base64Char (unat a mod 4 * 16 + unat b div 16) #
            base64Char (unat b mod 16 * 4 + unat c div 64) # base64Char (unat c mod 64) # rest) =
         a # b # c # fromBase64_loop 0 0 rest"
proof -
  note v = base64Value_base64Char [OF sextets(1) [OF unat8 [of a] unat8 [of b] unat8 [of c]]]
    base64Value_base64Char [OF sextets(2) [OF unat8 [of a] unat8 [of b] unat8 [of c]]]
    base64Value_base64Char [OF sextets(3) [OF unat8 [of a] unat8 [of b] unat8 [of c]]]
    base64Value_base64Char [OF sextets(4) [OF unat8 [of a] unat8 [of b] unat8 [of c]]]
  have s1: "fromBase64_loop 0 0 (base64Char (unat a div 4) # r) = fromBase64_loop (unat a div 4) 6 r" for r
    using loop_collect [OF v(1), of 0 0 r] by (simp del: fromBase64_loop.simps)
  have s2: "fromBase64_loop (unat a div 4) 6 (base64Char (unat a mod 4 * 16 + unat b div 16) # r) =
              a # fromBase64_loop (unat b div 16) 4 r" for r
  proof -
    have "unat b div 16 < 16" using unat8 [of b] by linarith
    then have m: "(unat a * 16 + unat b div 16) mod 2 ^ (6 - 2) = unat b div 16" by simp
    have d: "(unat a * 16 + unat b div 16) div 2 ^ (6 - 2) = unat a"
      using out1 [OF unat8, of "unat a" b] by simp
    show ?thesis
      using loop_emit [OF v(2), of 6 "unat a div 4" r] unfolding join1 d m
      by (simp del: fromBase64_loop.simps)
  qed
  have s3: "fromBase64_loop (unat b div 16) 4 (base64Char (unat b mod 16 * 4 + unat c div 64) # r) =
              b # fromBase64_loop (unat c div 64) 2 r" for r
  proof -
    have e: "unat b div 16 * 64 + (unat b mod 16 * 4 + unat c div 64) = unat b * 4 + unat c div 64"
      using div_mult_mod_eq [of "unat b" 16] by linarith
    have "unat c div 64 < 4" using unat8 [of c] by linarith
    then have m: "(unat b * 4 + unat c div 64) mod 2 ^ (4 - 2) = unat c div 64" by simp
    have d: "(unat b * 4 + unat c div 64) div 2 ^ (4 - 2) = unat b"
      using out2 [OF unat8, of "unat b" c] by simp
    show ?thesis
      using loop_emit [OF v(3), of 4 "unat b div 16" r] unfolding e d m
      by (simp del: fromBase64_loop.simps)
  qed
  have s4: "fromBase64_loop (unat c div 64) 2 (base64Char (unat c mod 64) # r) =
              c # fromBase64_loop 0 0 r" for r
  proof -
    have e: "unat c div 64 * 64 + unat c mod 64 = unat c"
      using div_mult_mod_eq [of "unat c" 64] by linarith
    show ?thesis
      using loop_emit [OF v(4), of 2 "unat c div 64" r] unfolding e
      by (simp del: fromBase64_loop.simps)
  qed
  show ?thesis by (simp only: s1 s2 s3 s4)
qed

lemma group1:
  fixes a :: "8 word"
  shows "fromBase64_loop 0 0
           [base64Char (unat a div 4), base64Char (unat a mod 4 * 16), CHR ''='', CHR ''=''] = [a]"
proof -
  note v = base64Value_base64Char [OF sextets(1) [OF unat8 [of a] unat8 [of a] unat8 [of a]]]
    base64Value_base64Char [OF sextets(5) [OF unat8 [of a] unat8 [of a] unat8 [of a]]]
  have s1: "fromBase64_loop 0 0 (base64Char (unat a div 4) # r) = fromBase64_loop (unat a div 4) 6 r" for r
    using loop_collect [OF v(1), of 0 0 r] by (simp del: fromBase64_loop.simps)
  have s2: "fromBase64_loop (unat a div 4) 6 (base64Char (unat a mod 4 * 16) # r) =
              a # fromBase64_loop 0 4 r" for r
  proof -
    have e: "unat a div 4 * 64 + unat a mod 4 * 16 = unat a * 16"
      using div_mult_mod_eq [of "unat a" 4] by linarith
    show ?thesis
      using loop_emit [OF v(2), of 6 "unat a div 4" r] unfolding e
      by (simp del: fromBase64_loop.simps)
  qed
  show ?thesis by (simp add: s1 s2 loop_skip [OF base64Value_pad] del: fromBase64_loop.simps(2))
qed

lemma group2:
  fixes a b :: "8 word"
  shows "fromBase64_loop 0 0
           [base64Char (unat a div 4), base64Char (unat a mod 4 * 16 + unat b div 16),
            base64Char (unat b mod 16 * 4), CHR ''=''] = [a, b]"
proof -
  note v = base64Value_base64Char [OF sextets(1) [OF unat8 [of a] unat8 [of b] unat8 [of b]]]
    base64Value_base64Char [OF sextets(2) [OF unat8 [of a] unat8 [of b] unat8 [of b]]]
    base64Value_base64Char [OF sextets(6) [OF unat8 [of a] unat8 [of b] unat8 [of b]]]
  have s1: "fromBase64_loop 0 0 (base64Char (unat a div 4) # r) = fromBase64_loop (unat a div 4) 6 r" for r
    using loop_collect [OF v(1), of 0 0 r] by (simp del: fromBase64_loop.simps)
  have s2: "fromBase64_loop (unat a div 4) 6 (base64Char (unat a mod 4 * 16 + unat b div 16) # r) =
              a # fromBase64_loop (unat b div 16) 4 r" for r
  proof -
    have "unat b div 16 < 16" using unat8 [of b] by linarith
    then have m: "(unat a * 16 + unat b div 16) mod 2 ^ (6 - 2) = unat b div 16" by simp
    have d: "(unat a * 16 + unat b div 16) div 2 ^ (6 - 2) = unat a"
      using out1 [OF unat8, of "unat a" b] by simp
    show ?thesis
      using loop_emit [OF v(2), of 6 "unat a div 4" r] unfolding join1 d m
      by (simp del: fromBase64_loop.simps)
  qed
  have s3: "fromBase64_loop (unat b div 16) 4 (base64Char (unat b mod 16 * 4) # r) =
              b # fromBase64_loop 0 2 r" for r
  proof -
    have e: "unat b div 16 * 64 + unat b mod 16 * 4 = unat b * 4"
      using div_mult_mod_eq [of "unat b" 16] by linarith
    show ?thesis
      using loop_emit [OF v(3), of 4 "unat b div 16" r] unfolding e
      by (simp del: fromBase64_loop.simps)
  qed
  show ?thesis by (simp add: s1 s2 s3 loop_skip [OF base64Value_pad] del: fromBase64_loop.simps(2))
qed

lemma base64_round_trip: "fromBase64 (toBase64 bs) = bs"
  unfolding fromBase64_def
  by (induction bs rule: toBase64.induct)
     (simp_all add: group1 group2 group3 del: fromBase64_loop.simps(2))

section \<open>The enumeration tables\<close>

lemma actionFromString_iff: "(actionFromString s = Some a) = (s = actionToString a)"
  by (cases a) (auto simp: actionFromString_def)

lemma transportFromString_iff: "(transportFromString s = Some t) = (s = transportToString t)"
  by (cases t) (auto simp: transportFromString_def)

lemma actionFromString_Nil: "actionFromString [] = None"
  by (simp add: actionFromString_def)
lemma transportFromString_Nil: "transportFromString [] = None"
  by (simp add: transportFromString_def)


text \<open>
  Claim C7. The tables between the enumerations and their tokens are inverse to each other:
  reading the token written for an Action (Add, Delete, Modify) or a Transport (Tcp, Udp)
  gives that value back, a string reads as a value exactly when it is that value's token,
  and any string that is none of the tokens reads as no value (\<open>None\<close>, the
  \<^verbatim>\<open>std::nullopt\<close> of the source), never as an error.
\<close>

theorem enum_codec_bijective:
  "actionFromString (actionToString a) = Some a \<and>
   transportFromString (transportToString t) = Some t \<and>
   (actionFromString s = Some a) = (s = actionToString a) \<and>
   (transportFromString s = Some t) = (s = transportToString t) \<and>
   (s \<notin> {''add'', ''delete'', ''modify''} \<longrightarrow> actionFromString s = None) \<and>
   (s \<notin> {''tcp'', ''udp''} \<longrightarrow> transportFromString s = None)"
  by (simp add: actionFromString_iff transportFromString_iff)
     (simp add: actionFromString_def transportFromString_def)

theorem enum_codec_bijective_witness:
  "actionFromString (actionToString Delete) = Some Delete \<and>
   transportFromString (transportToString Udp) = Some Udp \<and>
   ''Add'' \<notin> {''add'', ''delete'', ''modify''} \<and> actionFromString ''Add'' = None \<and>
   ''Add'' \<notin> {''tcp'', ''udp''} \<and> transportFromString ''Add'' = None"
  using enum_codec_bijective [of Delete Udp "''Add''"] by simp

section \<open>What the parsers read\<close>

lemma attribute_element:
  "attribute (QDomElement t ns as cs) k = (case map_of as k of None \<Rightarrow> [] | Some v \<Rightarrow> v)"
  by (simp add: attribute_def)
lemma contains_element:
  "contains (QDomElement t ns as cs) k = (map_of as k \<noteq> None)"
  by (simp add: contains_def)

lemma parse_host: "host (QXmppExternalService_parse f el d) = attribute el ''host''"
  by (simp add: QXmppExternalService_parse_def Let_def)
lemma parse_type: "type (QXmppExternalService_parse f el d) = attribute el ''type''"
  by (simp add: QXmppExternalService_parse_def Let_def)
lemma parse_action:
  "action (QXmppExternalService_parse f el d) = actionFromString (attribute el ''action'')"
  by (simp add: QXmppExternalService_parse_def Let_def)
lemma parse_expires:
  "expires (QXmppExternalService_parse f el d) =
     (if contains el ''expires'' then Some (f (attribute el ''expires'')) else expires d)"
  by (simp add: QXmppExternalService_parse_def Let_def)
lemma parse_name:
  "name (QXmppExternalService_parse f el d) =
     (if contains el ''name'' then Some (attribute el ''name'') else name d)"
  by (simp add: QXmppExternalService_parse_def Let_def)
lemma parse_password:
  "password (QXmppExternalService_parse f el d) =
     (if contains el ''password'' then Some (attribute el ''password'') else password d)"
  by (simp add: QXmppExternalService_parse_def Let_def)
lemma parse_port:
  "port (QXmppExternalService_parse f el d) =
     (if contains el ''port'' then Some (word_of_int (toInt (attribute el ''port''))) else port d)"
  by (simp add: QXmppExternalService_parse_def Let_def)
lemma parse_restricted:
  "restricted (QXmppExternalService_parse f el d) =
     (if contains el ''restricted''
      then Some (attribute el ''restricted'' = ''true'' \<or> attribute el ''restricted'' = ''1'')
      else restricted d)"
  by (simp add: QXmppExternalService_parse_def Let_def)
lemma parse_transport:
  "transport (QXmppExternalService_parse f el d) = transportFromString (attribute el ''transport'')"
  by (simp add: QXmppExternalService_parse_def Let_def)
lemma parse_username:
  "username (QXmppExternalService_parse f el d) =
     (if contains el ''username'' then Some (attribute el ''username'') else username d)"
  by (simp add: QXmppExternalService_parse_def Let_def)
lemma parse_more:
  "QXmppExternalService.more (QXmppExternalService_parse f el d) = QXmppExternalService.more d"
  by (simp add: QXmppExternalService_parse_def Let_def)




section \<open>What the serializers write\<close>

lemma writeOptionalXmlAttribute_events:
  "writeOptionalXmlAttribute w n v = w @ attributeEvents (optionalAttribute n v)"
  by (simp add: writeOptionalXmlAttribute_def writeAttribute_def optionalAttribute_def attributeEvents_def)

lemma guarded_write_events:
  "(case field of None \<Rightarrow> w | Some a \<Rightarrow> writeOptionalXmlAttribute w n (g a)) =
     w @ attributeEvents (optionalField n (map_option g field))"
  by (cases field)
     (simp_all add: writeOptionalXmlAttribute_events optionalField_def attributeEvents_def)

lemma guarded_write_events_id:
  "(case field of None \<Rightarrow> w | Some a \<Rightarrow> writeOptionalXmlAttribute w n a) =
     w @ attributeEvents (optionalField n field)"
  by (cases field)
     (simp_all add: writeOptionalXmlAttribute_events optionalField_def attributeEvents_def)

lemma attributeEvents_append: "attributeEvents (xs @ ys) = attributeEvents xs @ attributeEvents ys"
  by (simp add: attributeEvents_def)

lemma QXmppExternalService_toXml_events:
  "QXmppExternalService_toXml dts d w =
     w @ StartElement ''service'' # attributeEvents (serviceAttributes dts d) @ [EndElement]"
  unfolding QXmppExternalService_toXml_def Let_def guarded_write_events
  by (simp add: writeOptionalXmlAttribute_events writeStartElement_def writeEndElement_def
      serviceAttributes_def attributeEvents_append option.map_ident)

lemma foldl_snoc_map: "foldl (\<lambda>l x. l @ [f x]) acc xs = acc @ map f xs"
  by (induction xs arbitrary: acc) simp_all

lemma foldl_writer_concat:
  assumes "\<And>x w. f w x = w @ ev x"
  shows "foldl f w xs = w @ concat (map ev xs)"
  by (induction xs arbitrary: w) (simp_all add: assms)

lemma QXmppOmemoDeviceElement_toXml_events:
  "QXmppOmemoDeviceElement_toXml d w =
     w @ StartElement ''device'' #
         attributeEvents ((''id'', number (uint (m_id d))) # optionalAttribute ''label'' (m_label d)) @
         [EndElement]"
  by (simp add: QXmppOmemoDeviceElement_toXml_def Let_def writeStartElement_def writeAttribute_def
      writeEndElement_def attributeEvents_def optionalAttribute_def)

lemma QXmppOmemoDeviceList_toXml_events:
  "QXmppOmemoDeviceList_toXml l w =
     w @ StartElement ''devices'' # DefaultNamespace ns_omemo_2 #
         concat (map (\<lambda>d. QXmppOmemoDeviceElement_toXml d []) l) @ [EndElement]"
proof -
  have "foldl (\<lambda>w device. QXmppOmemoDeviceElement_toXml device w) w' l =
          w' @ concat (map (\<lambda>d. QXmppOmemoDeviceElement_toXml d []) l)" for w'
    by (rule foldl_writer_concat) (simp add: QXmppOmemoDeviceElement_toXml_events)
  then show ?thesis
    by (simp add: QXmppOmemoDeviceList_toXml_def Let_def writeStartElement_def
        writeDefaultNamespace_def writeEndElement_def)
qed

lemma QXmppOmemoDeviceBundle_toXml_events:
  "QXmppOmemoDeviceBundle_toXml toB b w =
     w @ [StartElement ''bundle'', DefaultNamespace ns_omemo_2,
          StartElement ''ik'', Characters (toB (m_publicIdentityKey b)), EndElement,
          StartElement ''spk'', Attribute ''id'' (number (uint (m_signedPublicPreKeyId b))),
          Characters (toB (m_signedPublicPreKey b)), EndElement,
          StartElement ''spks'', Characters (toB (m_signedPublicPreKeySignature b)), EndElement,
          StartElement ''prekeys''] @
         concat (map (pkEvents toB) (m_publicPreKeys b)) @ [EndElement, EndElement]"
proof -
  have "foldl (\<lambda>w (ident, key).
                 (let w = writeStartElement w ''pk'';
                      w = writeAttribute w ''id'' (number (uint ident));
                      w = writeCharacters w (toB key)
                  in writeEndElement w)) w' (m_publicPreKeys b) =
          w' @ concat (map (pkEvents toB) (m_publicPreKeys b))" for w'
    by (rule foldl_writer_concat)
       (simp add: pkEvents_def Let_def writeStartElement_def writeAttribute_def
          writeCharacters_def writeEndElement_def split: prod.splits)
  then show ?thesis
    by (simp add: QXmppOmemoDeviceBundle_toXml_def Let_def writeStartElement_def
        writeDefaultNamespace_def writeAttribute_def writeCharacters_def writeEndElement_def)
qed

lemma map_of_optionalAttribute:
  "map_of (optionalAttribute n v) k = (if k = n \<and> v \<noteq> [] then Some v else None)"
  by (simp add: optionalAttribute_def)

lemma map_of_optionalField:
  "map_of (optionalField n field) k =
     (if k = n then (case field of None \<Rightarrow> None | Some v \<Rightarrow> if v = [] then None else Some v)
      else None)"
  by (cases field) (simp_all add: optionalField_def map_of_optionalAttribute)

lemma map_of_append_apply:
  "map_of (xs @ ys) k = (case map_of xs k of None \<Rightarrow> map_of ys k | Some v \<Rightarrow> Some v)"
  by (simp add: map_add_def split: option.splits) 

lemmas lookup_simps = serviceAttributes_def map_of_append_apply map_of_optionalAttribute
  map_of_optionalField

lemma lookup_host: "map_of (serviceAttributes dts d) ''host'' = (if host d = [] then None else Some (host d))"
  by (simp add: lookup_simps del: map_of_append)
lemma lookup_type: "map_of (serviceAttributes dts d) ''type'' = (if type d = [] then None else Some (type d))"
  by (simp add: lookup_simps del: map_of_append)
lemma lookup_action: "map_of (serviceAttributes dts d) ''action'' = map_option actionToString (action d)"
  by (cases "action d"; cases "the (action d)") (simp_all add: lookup_simps del: map_of_append)
lemma lookup_expires:
  "map_of (serviceAttributes dts d) ''expires'' =
     (case expires d of None \<Rightarrow> None | Some e \<Rightarrow> if dts e = [] then None else Some (dts e))"
  by (simp add: lookup_simps del: map_of_append split: option.splits)
lemma lookup_name:
  "map_of (serviceAttributes dts d) ''name'' =
     (case name d of None \<Rightarrow> None | Some v \<Rightarrow> if v = [] then None else Some v)"
  by (simp add: lookup_simps del: map_of_append split: option.splits)
lemma lookup_password:
  "map_of (serviceAttributes dts d) ''password'' =
     (case password d of None \<Rightarrow> None | Some v \<Rightarrow> if v = [] then None else Some v)"
  by (simp add: lookup_simps del: map_of_append split: option.splits)
lemma lookup_port:
  "map_of (serviceAttributes dts d) ''port'' = map_option (\<lambda>p. number (sint p)) (port d)"
  by (simp add: lookup_simps number_def decimal_not_Nil del: map_of_append split: option.splits)
lemma lookup_restricted:
  "map_of (serviceAttributes dts d) ''restricted'' =
     map_option (\<lambda>r. if r then ''true'' else ''false'') (restricted d)"
  by (simp add: lookup_simps del: map_of_append split: option.splits)
lemma lookup_transport:
  "map_of (serviceAttributes dts d) ''transport'' = map_option transportToString (transport d)"
  by (cases "transport d"; cases "the (transport d)") (simp_all add: lookup_simps del: map_of_append)
lemma lookup_username:
  "map_of (serviceAttributes dts d) ''username'' =
     (case username d of None \<Rightarrow> None | Some v \<Rightarrow> if v = [] then None else Some v)"
  by (simp add: lookup_simps del: map_of_append split: option.splits)

lemmas lookups = lookup_host lookup_type lookup_action lookup_expires lookup_name
  lookup_password lookup_port lookup_restricted lookup_transport lookup_username

lemma elementsOpened_append: "elementsOpened (xs @ ys) = elementsOpened xs + elementsOpened ys"
  by (induction xs rule: elementsOpened.induct) simp_all

lemma attributesWritten_append:
  "attributesWritten (xs @ ys) = attributesWritten xs @ attributesWritten ys"
  by (induction xs rule: attributesWritten.induct) simp_all

lemma elementsOpened_attributeEvents: "elementsOpened (attributeEvents as) = 0"
  by (induction as) (auto simp: attributeEvents_def)

lemma attributesWritten_attributeEvents: "attributesWritten (attributeEvents as) = as"
  by (induction as) (auto simp: attributeEvents_def)

lemma service_elementsOpened: "elementsOpened (QXmppExternalService_toXml dts s []) = 1"
  by (simp add: QXmppExternalService_toXml_events elementsOpened_append
      elementsOpened_attributeEvents)

lemma service_attributesWritten:
  "attributesWritten (QXmppExternalService_toXml dts s []) = serviceAttributes dts s"
  by (simp add: QXmppExternalService_toXml_events attributesWritten_append
      attributesWritten_attributeEvents)

lemma device_elementsOpened: "elementsOpened (QXmppOmemoDeviceElement_toXml d []) = 1"
  by (simp add: QXmppOmemoDeviceElement_toXml_events elementsOpened_append
      elementsOpened_attributeEvents)

lemma device_attributesWritten:
  "attributesWritten (QXmppOmemoDeviceElement_toXml d []) =
     (''id'', number (uint (m_id d))) # optionalAttribute ''label'' (m_label d)"
  by (simp add: QXmppOmemoDeviceElement_toXml_events attributesWritten_append
      attributesWritten_attributeEvents)

lemma fst_optionalAttribute: "x \<in> set (optionalAttribute n v) \<Longrightarrow> fst x = n"
  by (auto simp: optionalAttribute_def split: if_splits)

lemma fst_optionalField: "x \<in> set (optionalField n f) \<Longrightarrow> fst x = n"
  by (cases f) (auto simp: optionalField_def dest: fst_optionalAttribute)

lemma attribute_names_generic:
  "fst ` set (optionalAttribute n1 v1 @ optionalAttribute n2 v2 @ optionalField n3 f3 @
              optionalField n4 f4 @ optionalField n5 f5 @ optionalField n6 f6 @
              optionalField n7 f7 @ optionalField n8 f8 @ optionalField n9 f9 @
              optionalField n10 f10) \<subseteq> {n1, n2, n3, n4, n5, n6, n7, n8, n9, n10}"
  by (auto dest: fst_optionalAttribute fst_optionalField)

lemma service_attribute_names:
  "fst ` set (serviceAttributes dts s) \<subseteq>
     {''host'', ''type'', ''action'', ''expires'', ''name'', ''password'', ''port'',
      ''restricted'', ''transport'', ''username''}"
  unfolding serviceAttributes_def by (rule attribute_names_generic)

section \<open>Reading a written element back\<close>

lemma domBuild_attributes:
  "domBuild ((t, ns, as, cs) # st) out (attributeEvents xs @ rest) =
     domBuild ((t, ns, as @ xs, cs) # st) out rest"
  by (induction xs arbitrary: as) (auto simp: attributeEvents_def)

lemma readElement_service:
  "readElement (QXmppExternalService_toXml dts d []) =
     Some (QDomElement ''service'' [] (serviceAttributes dts d) [])"
  by (simp add: QXmppExternalService_toXml_events readElement_def readElements_def
      domBuild_attributes)

lemma domBuild_leaf_child:
  "domBuild ((t, ns, as, cs) # st) out (StartElement t' # attributeEvents xs @ EndElement # rest) =
     domBuild ((t, ns, as, cs @ [QDomElement t' ns xs []]) # st) out rest"
  by (simp add: domBuild_attributes)

lemma domBuild_text_child:
  "domBuild ((t, ns, as, cs) # st) out
       (StartElement t' # attributeEvents xs @ Characters s # EndElement # rest) =
     domBuild ((t, ns, as, cs @ [QDomElement t' ns xs (if s = [] then [] else [QDomText s])]) # st)
       out rest"
  by (simp add: domBuild_attributes)

lemma domBuild_children:
  assumes "\<And>x cs rest. domBuild ((t, ns, as, cs) # st) out (ev x @ rest) =
             domBuild ((t, ns, as, cs @ [node x]) # st) out rest"
  shows "domBuild ((t, ns, as, cs) # st) out (concat (map ev xs) @ rest) =
           domBuild ((t, ns, as, cs @ map node xs) # st) out rest"
  by (induction xs arbitrary: cs) (simp_all add: assms)

lemma readElement_device:
  "readElement (QXmppOmemoDeviceElement_toXml d []) =
     Some (QDomElement ''device'' []
            ((''id'', number (uint (m_id d))) # optionalAttribute ''label'' (m_label d)) [])"
  by (simp add: QXmppOmemoDeviceElement_toXml_events readElement_def readElements_def
      domBuild_attributes)

lemma readElement_deviceList:
  "readElement (QXmppOmemoDeviceList_toXml l []) =
     Some (QDomElement ''devices'' ns_omemo_2 []
            (map (\<lambda>d. QDomElement ''device'' ns_omemo_2
                         ((''id'', number (uint (m_id d))) # optionalAttribute ''label'' (m_label d)) [])
               l))"
proof -
  have "domBuild [(''devices'', ns_omemo_2, [], [])] []
          (concat (map (\<lambda>d. QXmppOmemoDeviceElement_toXml d []) l) @ [EndElement]) =
        domBuild [(''devices'', ns_omemo_2, [], [] @ map (\<lambda>d. QDomElement ''device'' ns_omemo_2
                         ((''id'', number (uint (m_id d))) # optionalAttribute ''label'' (m_label d)) []) l)] []
          [EndElement]"
    by (rule domBuild_children)
       (simp add: QXmppOmemoDeviceElement_toXml_events domBuild_attributes)
  then show ?thesis
    by (simp add: QXmppOmemoDeviceList_toXml_events readElement_def readElements_def)
qed

lemma elementText_textNodes: "concat (map elementText (textNodes s)) = s"
  by (simp add: textNodes_def)

lemma readElement_bundle:
  "readElement (QXmppOmemoDeviceBundle_toXml toB b []) = Some (bundleNode toB b)"
proof -
  have "domBuild ((''prekeys'', ns_omemo_2, [], []) # st) []
          (concat (map (pkEvents toB) (m_publicPreKeys b)) @ rest) =
        domBuild ((''prekeys'', ns_omemo_2, [], [] @ map (pkNode toB) (m_publicPreKeys b)) # st) []
          rest" for st rest
    by (rule domBuild_children) (simp add: pkEvents_def pkNode_def textNodes_def)
  then show ?thesis
    by (simp add: QXmppOmemoDeviceBundle_toXml_events readElement_def readElements_def
        bundleNode_def textNodes_def)
qed

section \<open>Round trip\<close>

lemma port_round_trip: "word_of_int (toInt (number (sint (p :: 32 word)))) = p"
  using sint32_range [of p] by (simp add: toInt_number)

lemma service_round_trip:
  assumes "name d \<noteq> Some []" "password d \<noteq> Some []" "username d \<noteq> Some []"
    and "\<forall>e. expires d = Some e \<longrightarrow> dts e \<noteq> [] \<and> dfs (dts e) = e"
  shows "QXmppExternalService_parse dfs (QDomElement ''service'' [] (serviceAttributes dts d) [])
           newExternalService = d"
proof (rule QXmppExternalService.equality)
  let ?p = "QXmppExternalService_parse dfs (QDomElement ''service'' [] (serviceAttributes dts d) [])
           newExternalService"
  show "host ?p = host d" by (simp add: parse_host attribute_element lookup_host)
  show "type ?p = type d" by (simp add: parse_type attribute_element lookup_type)
  show "action ?p = action d"
    by (cases "action d")
       (simp_all add: parse_action attribute_element lookup_action actionFromString_Nil
          actionFromString_iff)
  show "expires ?p = expires d" using assms(4)
    by (cases "expires d")
       (simp_all add: parse_expires attribute_element contains_element lookup_expires
          newExternalService_def)
  show "name ?p = name d" using assms(1)
    by (cases "name d")
       (simp_all add: parse_name attribute_element contains_element lookup_name
          newExternalService_def)
  show "password ?p = password d" using assms(2)
    by (cases "password d")
       (simp_all add: parse_password attribute_element contains_element lookup_password
          newExternalService_def)
  show "port ?p = port d"
    by (cases "port d")
       (simp_all add: parse_port attribute_element contains_element lookup_port
          newExternalService_def port_round_trip)
  show "restricted ?p = restricted d"
    by (cases "restricted d")
       (simp_all add: parse_restricted attribute_element contains_element lookup_restricted
          newExternalService_def)
  show "transport ?p = transport d"
    by (cases "transport d")
       (simp_all add: parse_transport attribute_element lookup_transport transportFromString_Nil
          transportFromString_iff)
  show "username ?p = username d" using assms(3)
    by (cases "username d")
       (simp_all add: parse_username attribute_element contains_element lookup_username
          newExternalService_def)
  show "QXmppExternalService.more ?p = QXmppExternalService.more d" by simp
qed

lemma device_round_trip:
  assumes "uint (m_id d) < 2 ^ 31"
  shows "QXmppOmemoDeviceElement_parse
           (QDomElement t ns ((''id'', number (uint (m_id d))) # optionalAttribute ''label'' (m_label d)) cs)
           this = d"
  using assms
  by (simp add: QXmppOmemoDeviceElement_parse_def attribute_element uint32_toInt
      map_of_optionalAttribute)

lemma deviceList_round_trip:
  assumes "\<forall>d\<in>set l. uint (m_id d) < 2 ^ 31"
  shows "QXmppOmemoDeviceList_parse
           (QDomElement ''devices'' ns_omemo_2 []
            (map (\<lambda>d. QDomElement ''device'' ns_omemo_2
                         ((''id'', number (uint (m_id d))) # optionalAttribute ''label'' (m_label d)) [])
               l)) [] = l"
proof -
  have "map (\<lambda>d. QXmppOmemoDeviceElement_parse
                (QDomElement ''device'' ns_omemo_2
                   ((''id'', number (uint (m_id d))) # optionalAttribute ''label'' (m_label d)) [])
                newOmemoDeviceElement) l = l"
    using assms by (induction l) (simp_all add: device_round_trip)
  then show ?thesis
    by (simp add: QXmppOmemoDeviceList_parse_def foldl_snoc_map iterChildElementsNamed_def
        childElements_def filter_map comp_def map_idI)
qed

lemma update_fresh: "k \<notin> fst ` set al \<Longrightarrow> AList.update k v al = al @ [(k, v)]"
  by (induction al) auto

lemma foldl_update_distinct:
  "distinct (map fst al) \<Longrightarrow> fst ` set al \<inter> fst ` set acc = {} \<Longrightarrow>
     foldl (\<lambda>acc (k, v). AList.update k v acc) acc al = acc @ al"
proof (induction al arbitrary: acc)
  case Nil
  then show ?case by simp
next
  case (Cons p al)
  obtain k v where p: "p = (k, v)" by (cases p)
  from Cons.prems p have fresh: "k \<notin> fst ` set acc" by auto
  have "foldl (\<lambda>acc (k, v). AList.update k v acc) (acc @ [(k, v)]) al = (acc @ [(k, v)]) @ al"
    using Cons.prems p by (intro Cons.IH) auto
  with fresh p show ?case by (simp add: update_fresh)
qed

lemma pk_decode:
  assumes "uint k < 2 ^ 31" "fromB (toB v) = v"
  shows "(word_of_int (toInt (attribute (pkNode toB (k, v)) ''id'')),
          fromB (elementText (pkNode toB (k, v)))) = (k, v)"
  using assms by (simp add: pkNode_def attribute_element elementText_textNodes uint32_toInt)

lemma pk_decode_all:
  assumes "\<forall>(k, v)\<in>set al. uint k < 2 ^ 31 \<and> fromB (toB v) = v"
  shows "map ((\<lambda>c. (word_of_int (toInt (attribute c ''id'')) :: 32 word, fromB (elementText c)))
              \<circ> pkNode toB) al = al"
proof -
  have "(word_of_int (toInt (attribute (pkNode toB p) ''id'')),
          fromB (elementText (pkNode toB p))) = p" if "p \<in> set al" for p
    using assms that pk_decode [of "fst p" fromB toB "snd p"] by (cases p) auto
  then show ?thesis by (simp add: map_idI)
qed

lemma foldl_addPublicPreKey:
  "foldl (\<lambda>b c. addPublicPreKey (f c) (g c) b) b0 cs =
     b0\<lparr>m_publicPreKeys :=
          foldl (\<lambda>acc (k, v). AList.update k v acc) (m_publicPreKeys b0) (map (\<lambda>c. (f c, g c)) cs)\<rparr>"
  by (induction cs arbitrary: b0) (simp_all add: addPublicPreKey_def)

lemma pk_children:
  "filter (\<lambda>c. isElement c \<and> tagName c = ''pk'') (map (pkNode toB) al) = map (pkNode toB) al"
  by (simp add: pkNode_def filter_map comp_def)

lemma bundle_round_trip:
  assumes "uint (m_signedPublicPreKeyId b) < 2 ^ 31"
    and "\<forall>(k, v)\<in>set (m_publicPreKeys b). uint k < 2 ^ 31 \<and> fromB (toB v) = v"
    and "distinct (map fst (m_publicPreKeys b))"
    and "fromB (toB (m_publicIdentityKey b)) = m_publicIdentityKey b"
    and "fromB (toB (m_signedPublicPreKey b)) = m_signedPublicPreKey b"
    and "fromB (toB (m_signedPublicPreKeySignature b)) = m_signedPublicPreKeySignature b"
  shows "QXmppOmemoDeviceBundle_parse fromB (bundleNode toB b) newOmemoDeviceBundle = b"
proof -
  have keys: "foldl (\<lambda>acc (k, v). AList.update k v acc) [] (m_publicPreKeys b) = m_publicPreKeys b"
    using foldl_update_distinct [OF assms(3), of "[]"] by simp
  show ?thesis
    using assms(1,4,5,6)
    by (simp add: QXmppOmemoDeviceBundle_parse_def bundleNode_def firstChildElementNamed_def
        childElements_def nullableText_def elementText_textNodes attribute_element uint32_toInt
        Let_def foldl_addPublicPreKey pk_children
        pk_decode_all [OF assms(2)] keys newOmemoDeviceBundle_def)
qed

lemma reparse_service:
  assumes "name d \<noteq> Some []" "password d \<noteq> Some []" "username d \<noteq> Some []"
    and "\<forall>e. expires d = Some e \<longrightarrow> dts e \<noteq> [] \<and> dfs (dts e) = e"
  shows "reparseExternalService dfs dts d = Some d"
  using service_round_trip [OF assms]
  by (simp add: reparseExternalService_def readElement_service)

lemma reparse_device:
  assumes "uint (m_id d) < 2 ^ 31"
  shows "reparseDeviceElement d = Some d"
  using device_round_trip [OF assms]
  by (simp add: reparseDeviceElement_def readElement_device)

lemma reparse_deviceList:
  assumes "\<forall>d\<in>set l. uint (m_id d) < 2 ^ 31"
  shows "reparseDeviceList l = Some l"
  using deviceList_round_trip [OF assms]
  by (simp add: reparseDeviceList_def readElement_deviceList)

lemma reparse_bundle:
  assumes "uint (m_signedPublicPreKeyId b) < 2 ^ 31"
    and "\<forall>(k, v)\<in>set (m_publicPreKeys b). uint k < 2 ^ 31 \<and> fromB (toB v) = v"
    and "distinct (map fst (m_publicPreKeys b))"
    and "fromB (toB (m_publicIdentityKey b)) = m_publicIdentityKey b"
    and "fromB (toB (m_signedPublicPreKey b)) = m_signedPublicPreKey b"
    and "fromB (toB (m_signedPublicPreKeySignature b)) = m_signedPublicPreKeySignature b"
  shows "reparseDeviceBundle fromB toB b = Some b"
  using bundle_round_trip [OF assms]
  by (simp add: reparseDeviceBundle_def readElement_bundle)

text \<open>With the standard Base64 codec the keys need no assumption.\<close>

lemma reparse_bundle_base64:
  assumes "uint (m_signedPublicPreKeyId b) < 2 ^ 31"
    and "\<forall>(k, v)\<in>set (m_publicPreKeys b). uint k < 2 ^ 31"
    and "distinct (map fst (m_publicPreKeys b))"
  shows "reparseDeviceBundle fromBase64 toBase64 b = Some b"
  using assms by (intro reparse_bundle) (auto simp: base64_round_trip)

text \<open>
  Claim C1, as amended. Serializing a value, reading the element back and parsing it into a
  default-constructed object gives the value back field for field, set and unset optional
  fields included, for: every ExternalService whose name, password and username are unset
  or not empty and whose expires, when set, is written as non-empty text that
  \<^verbatim>\<open>datetimeFromString\<close> reads back; every DeviceElement whose ID is at most \<open>2 ^ 31 - 1\<close>; every
  DeviceList of such elements; and every DeviceBundle whose IDs are at most \<open>2 ^ 31 - 1\<close>, whose
  pre-key IDs are distinct and whose keys Base64 decoding gives back from their encoding.
  The claim as stated fails for an optional string set to the empty string:
  \<open>writeOptionalXmlAttribute\<close> writes no attribute for it, and it is parsed as unset.
\<close>

theorem codec_round_trip:
  assumes "name s \<noteq> Some []" and "password s \<noteq> Some []" and "username s \<noteq> Some []"
    and "\<forall>e. expires s = Some e \<longrightarrow>
           datetimeToString e \<noteq> [] \<and> datetimeFromString (datetimeToString e) = e"
    and "uint (m_id d) < 2 ^ 31"
    and "\<forall>x\<in>set l. uint (m_id x) < 2 ^ 31"
    and "uint (m_signedPublicPreKeyId b) < 2 ^ 31"
    and "\<forall>(k, v)\<in>set (m_publicPreKeys b). uint k < 2 ^ 31 \<and> fromB (toB v) = v"
    and "distinct (map fst (m_publicPreKeys b))"
    and "fromB (toB (m_publicIdentityKey b)) = m_publicIdentityKey b"
    and "fromB (toB (m_signedPublicPreKey b)) = m_signedPublicPreKey b"
    and "fromB (toB (m_signedPublicPreKeySignature b)) = m_signedPublicPreKeySignature b"
  shows "reparseExternalService datetimeFromString datetimeToString s = Some s \<and>
         reparseDeviceElement d = Some d \<and>
         reparseDeviceList l = Some l \<and>
         reparseDeviceBundle fromB toB b = Some b"
  using reparse_service [OF assms(1-4)] reparse_device [OF assms(5)]
    reparse_deviceList [OF assms(6)] reparse_bundle [OF assms(7-12)]
  by simp

theorem codec_round_trip_witness:
  "reparseExternalService id id
      \<lparr>host = ''turn.example.com'', type = ''turn'', action = Some Add,
        expires = Some ''2023-06-01T12:00:00.000Z'', name = Some ''relay'', password = None,
        port = Some 3478, restricted = Some False, transport = Some Udp,
        username = Some ''u''\<rparr> =
     Some \<lparr>host = ''turn.example.com'', type = ''turn'', action = Some Add,
        expires = Some ''2023-06-01T12:00:00.000Z'', name = Some ''relay'', password = None,
        port = Some 3478, restricted = Some False, transport = Some Udp,
        username = Some ''u''\<rparr> \<and>
   reparseDeviceElement \<lparr>m_id = 31415, m_label = ''phone''\<rparr> =
     Some \<lparr>m_id = 31415, m_label = ''phone''\<rparr> \<and>
   reparseDeviceList [\<lparr>m_id = 1, m_label = ''a''\<rparr>, \<lparr>m_id = 2, m_label = []\<rparr>] =
     Some [\<lparr>m_id = 1, m_label = ''a''\<rparr>, \<lparr>m_id = 2, m_label = []\<rparr>] \<and>
   reparseDeviceBundle fromBase64 toBase64
      \<lparr>m_publicIdentityKey = [1, 2, 3], m_signedPublicPreKey = [4, 5],
        m_signedPublicPreKeyId = 7, m_signedPublicPreKeySignature = [9],
        m_publicPreKeys = [(1, [10, 11, 12, 13]), (2, [14])]\<rparr> =
     Some \<lparr>m_publicIdentityKey = [1, 2, 3], m_signedPublicPreKey = [4, 5],
        m_signedPublicPreKeyId = 7, m_signedPublicPreKeySignature = [9],
        m_publicPreKeys = [(1, [10, 11, 12, 13]), (2, [14])]\<rparr>"
proof -
  show ?thesis
    by (rule codec_round_trip) (simp_all add: base64_round_trip del: toBase64.simps)
qed

theorem codec_round_trip_counterexample:
  "reparseExternalService id id
      \<lparr>host = ''turn.example.com'', type = ''turn'', action = None, expires = None,
        name = Some [], password = None, port = None, restricted = None, transport = None,
        username = None\<rparr> =
     Some \<lparr>host = ''turn.example.com'', type = ''turn'', action = None, expires = None,
        name = None, password = None, port = None, restricted = None, transport = None,
        username = None\<rparr> \<and>
   reparseExternalService id id
      \<lparr>host = ''turn.example.com'', type = ''turn'', action = None, expires = None,
        name = Some [], password = None, port = None, restricted = None, transport = None,
        username = None\<rparr> \<noteq>
     Some \<lparr>host = ''turn.example.com'', type = ''turn'', action = None, expires = None,
        name = Some [], password = None, port = None, restricted = None, transport = None,
        username = None\<rparr>"
  by code_simp

section \<open>Tolerant parsing\<close>









section \<open>Recognizers\<close>

lemma recognized_service:
  "recognizedAs isExternalService (QXmppExternalService_toXml dts s []) =
     (host s \<noteq> [] \<and> type s \<noteq> [])"
  by (simp add: recognizedAs_def readElement_service isExternalService_def attribute_element
      lookup_host lookup_type)

lemma recognized_deviceList:
  "recognizedAs isOmemoDeviceList (QXmppOmemoDeviceList_toXml l [])"
  by (simp add: recognizedAs_def readElement_deviceList isOmemoDeviceList_def)

lemma recognized_devices_in_list:
  "recognizedAs (\<lambda>el. list_all isOmemoDeviceElement (childElements el) \<and>
                      length (childElements el) = length l)
     (QXmppOmemoDeviceList_toXml l [])"
  by (auto simp: recognizedAs_def readElement_deviceList childElements_def filter_map comp_def
      isOmemoDeviceElement_def list_all_iff)

lemma recognized_bundle:
  "recognizedAs isOmemoDeviceBundle (QXmppOmemoDeviceBundle_toXml toB b [])"
  by (simp add: recognizedAs_def readElement_bundle isOmemoDeviceBundle_def bundleNode_def)

lemma not_recognized_device_alone:
  "\<not> recognizedAs isOmemoDeviceElement (QXmppOmemoDeviceElement_toXml d [])"
  by (simp add: recognizedAs_def readElement_device isOmemoDeviceElement_def ns_omemo_2_def)

text \<open>
  Claim C3, as amended. A recognizer accepts an element exactly when the element has the
  type's tag name and, for the OMEMO types, namespace, and for a service non-empty host and
  type attributes; so it rejects every element that does not match. The element written for
  an ExternalService is recognized exactly when host and type are not empty; the element
  written for any DeviceList or DeviceBundle is recognized, and so is every device element
  inside a written DeviceList. The claim as stated fails for an ExternalService whose host
  or type is empty.
\<close>

theorem recognizer_soundness:
  "isExternalService el =
     (tagName el = ''service'' \<and> attribute el ''host'' \<noteq> [] \<and> attribute el ''type'' \<noteq> []) \<and>
   isOmemoDeviceElement el = (tagName el = ''device'' \<and> namespaceURI el = ns_omemo_2) \<and>
   isOmemoDeviceList el = (tagName el = ''devices'' \<and> namespaceURI el = ns_omemo_2) \<and>
   isOmemoDeviceBundle el = (tagName el = ''bundle'' \<and> namespaceURI el = ns_omemo_2) \<and>
   recognizedAs isExternalService (QXmppExternalService_toXml dts s []) =
     (host s \<noteq> [] \<and> type s \<noteq> []) \<and>
   recognizedAs isOmemoDeviceList (QXmppOmemoDeviceList_toXml l []) \<and>
   recognizedAs (\<lambda>el. list_all isOmemoDeviceElement (childElements el) \<and>
                      length (childElements el) = length l)
     (QXmppOmemoDeviceList_toXml l []) \<and>
   recognizedAs isOmemoDeviceBundle (QXmppOmemoDeviceBundle_toXml toB b [])"
  using recognized_service [of dts s] recognized_deviceList [of l] recognized_devices_in_list [of l]
    recognized_bundle [of toB b]
  by (simp add: isExternalService_def isOmemoDeviceElement_def isOmemoDeviceList_def
      isOmemoDeviceBundle_def)

theorem recognizer_soundness_witness:
  "recognizedAs isExternalService
     (QXmppExternalService_toXml id
        \<lparr>host = ''turn.example.com'', type = ''turn'', action = None, expires = None,
          name = None, password = None, port = Some 3478, restricted = None,
          transport = Some Udp, username = None\<rparr> []) \<and>
   \<not> isExternalService (QDomElement ''service'' [] [(''host'', ''turn.example.com'')] []) \<and>
   \<not> isExternalService (QDomElement ''item'' [] [(''host'', ''h''), (''type'', ''t'')] []) \<and>
   recognizedAs isOmemoDeviceList
     (QXmppOmemoDeviceList_toXml [\<lparr>m_id = 1, m_label = ''a''\<rparr>, \<lparr>m_id = 2, m_label = []\<rparr>] [])"
  using recognizer_soundness
    [of "QDomElement ''service'' [] [(''host'', ''turn.example.com'')] []" id
      "\<lparr>host = ''turn.example.com'', type = ''turn'', action = None, expires = None,
          name = None, password = None, port = Some 3478, restricted = None,
          transport = Some Udp, username = None\<rparr>"
      "[\<lparr>m_id = 1, m_label = ''a''\<rparr>, \<lparr>m_id = 2, m_label = []\<rparr>]" toBase64 newOmemoDeviceBundle]
    recognizer_soundness [of "QDomElement ''item'' [] [(''host'', ''h''), (''type'', ''t'')] []"
      id newExternalService "[]" toBase64 newOmemoDeviceBundle]
  by (simp add: attribute_def)

theorem recognizer_soundness_counterexample:
  "\<not> recognizedAs isExternalService
       (QXmppExternalService_toXml id
          \<lparr>host = [], type = ''turn'', action = None, expires = None,
            name = None, password = None, port = None, restricted = None,
            transport = None, username = None\<rparr> [])"
  by code_simp

text \<open>
  Claim C4, as amended. \<open>isOmemoIq\<close> accepts an element exactly when the element has at
  least one child element and its first child element satisfies the recognizer of the OMEMO
  payload. Further children are not looked at, so the claim as stated (exactly one child)
  fails for an element with two children whose first is the payload.
\<close>

theorem isOmemoIq_first_child:
  "isOmemoIq isOmemoElement el =
     (case childElements el of [] \<Rightarrow> False | child # others \<Rightarrow> isOmemoElement child)"
  by (simp add: isOmemoIq_def firstChildElement_def split: list.splits)

theorem isOmemoIq_first_child_witness:
  "isOmemoIq exampleOmemoElement
     (QDomElement ''iq'' [] [(''type'', ''set'')] [QDomElement ''encrypted'' ns_omemo_2 [] []]) \<and>
   \<not> isOmemoIq exampleOmemoElement (QDomElement ''iq'' [] [(''type'', ''set'')] []) \<and>
   \<not> isOmemoIq exampleOmemoElement
     (QDomElement ''iq'' [] [] [QDomElement ''query'' [] [] [], QDomElement ''encrypted'' ns_omemo_2 [] []])"
  using isOmemoIq_first_child [of exampleOmemoElement
      "QDomElement ''iq'' [] [(''type'', ''set'')] [QDomElement ''encrypted'' ns_omemo_2 [] []]"]
    isOmemoIq_first_child [of exampleOmemoElement "QDomElement ''iq'' [] [(''type'', ''set'')] []"]
    isOmemoIq_first_child [of exampleOmemoElement
      "QDomElement ''iq'' [] [] [QDomElement ''query'' [] [] [], QDomElement ''encrypted'' ns_omemo_2 [] []]"]
  by (simp add: childElements_def exampleOmemoElement_def)

theorem isOmemoIq_counterexample:
  "isOmemoIq exampleOmemoElement
     (QDomElement ''iq'' [] []
        [QDomElement ''encrypted'' ns_omemo_2 [] [], QDomElement ''extra'' [] [] []]) \<and>
   length (childElements
     (QDomElement ''iq'' [] []
        [QDomElement ''encrypted'' ns_omemo_2 [] [], QDomElement ''extra'' [] [] []])) = 2"
  by (simp add: isOmemoIq_def firstChildElement_def childElements_def exampleOmemoElement_def)

section \<open>Attributes written\<close>

text \<open>
  Claim C5, as amended. For every value, \<open>toXml\<close> of an ExternalService opens exactly one
  element, writes host and type exactly when they are not empty, writes each set optional
  field by its own token mapping (an optional string or timestamp text only when it is not
  empty), writes no attribute for an unset optional field, and writes no attribute under any
  other name. \<open>toXml\<close> of a DeviceElement opens exactly one element, writes the id always
  and the label exactly when it is not empty. The claim as stated fails for an
  ExternalService whose host is empty: no host attribute is written.
\<close>

theorem serialize_attributes:
  "elementsOpened (QXmppExternalService_toXml dts s []) = 1 \<and>
   map_of (attributesWritten (QXmppExternalService_toXml dts s [])) ''host'' =
     (if host s = [] then None else Some (host s)) \<and>
   map_of (attributesWritten (QXmppExternalService_toXml dts s [])) ''type'' =
     (if type s = [] then None else Some (type s)) \<and>
   map_of (attributesWritten (QXmppExternalService_toXml dts s [])) ''action'' =
     map_option actionToString (action s) \<and>
   map_of (attributesWritten (QXmppExternalService_toXml dts s [])) ''expires'' =
     (case expires s of None \<Rightarrow> None | Some e \<Rightarrow> if dts e = [] then None else Some (dts e)) \<and>
   map_of (attributesWritten (QXmppExternalService_toXml dts s [])) ''name'' =
     (case name s of None \<Rightarrow> None | Some v \<Rightarrow> if v = [] then None else Some v) \<and>
   map_of (attributesWritten (QXmppExternalService_toXml dts s [])) ''password'' =
     (case password s of None \<Rightarrow> None | Some v \<Rightarrow> if v = [] then None else Some v) \<and>
   map_of (attributesWritten (QXmppExternalService_toXml dts s [])) ''port'' =
     map_option (\<lambda>p. number (sint p)) (port s) \<and>
   map_of (attributesWritten (QXmppExternalService_toXml dts s [])) ''restricted'' =
     map_option (\<lambda>r. if r then ''true'' else ''false'') (restricted s) \<and>
   map_of (attributesWritten (QXmppExternalService_toXml dts s [])) ''transport'' =
     map_option transportToString (transport s) \<and>
   map_of (attributesWritten (QXmppExternalService_toXml dts s [])) ''username'' =
     (case username s of None \<Rightarrow> None | Some v \<Rightarrow> if v = [] then None else Some v) \<and>
   fst ` set (attributesWritten (QXmppExternalService_toXml dts s [])) \<subseteq>
     {''host'', ''type'', ''action'', ''expires'', ''name'', ''password'', ''port'',
      ''restricted'', ''transport'', ''username''} \<and>
   elementsOpened (QXmppOmemoDeviceElement_toXml d []) = 1 \<and>
   attributesWritten (QXmppOmemoDeviceElement_toXml d []) =
     (''id'', number (uint (m_id d))) # (if m_label d = [] then [] else [(''label'', m_label d)])"
  using service_attribute_names [of dts s]
  by (simp add: service_elementsOpened service_attributesWritten lookups device_elementsOpened
      device_attributesWritten optionalAttribute_def)

theorem serialize_attributes_witness:
  "QXmppExternalService_toXml id
     \<lparr>host = ''turn.example.com'', type = ''turn'', action = None, expires = None,
       name = None, password = None, port = Some 3478, restricted = None,
       transport = Some Udp, username = None\<rparr> [] =
     [StartElement ''service'', Attribute ''host'' ''turn.example.com'', Attribute ''type'' ''turn'',
      Attribute ''port'' ''3478'', Attribute ''transport'' ''udp'', EndElement] \<and>
   map_of (attributesWritten (QXmppExternalService_toXml id
     \<lparr>host = ''turn.example.com'', type = ''turn'', action = None, expires = None,
       name = None, password = None, port = Some 3478, restricted = None,
       transport = Some Udp, username = None\<rparr> [])) ''name'' = None \<and>
   attributesWritten (QXmppOmemoDeviceElement_toXml \<lparr>m_id = 7, m_label = []\<rparr> []) = [(''id'', ''7'')]"
proof -
  let ?s = "\<lparr>host = ''turn.example.com'', type = ''turn'', action = None, expires = None,
       name = None, password = None, port = Some (3478 :: 32 word), restricted = None,
       transport = Some Udp, username = None :: string option\<rparr> :: string QXmppExternalService"
  have 1: "QXmppExternalService_toXml id ?s [] =
     [StartElement ''service'', Attribute ''host'' ''turn.example.com'', Attribute ''type'' ''turn'',
      Attribute ''port'' ''3478'', Attribute ''transport'' ''udp'', EndElement]"
    by code_simp
  have n: "number 7 = ''7''" by code_simp
  from serialize_attributes [of id ?s "\<lparr>m_id = 7, m_label = []\<rparr>"]
  have 2: "map_of (attributesWritten (QXmppExternalService_toXml id ?s [])) ''name'' = None"
    and 3: "attributesWritten (QXmppOmemoDeviceElement_toXml \<lparr>m_id = 7, m_label = []\<rparr> []) = [(''id'', ''7'')]"
    by (simp_all add: n)
  from 1 2 3 show ?thesis by blast
qed

theorem serialize_attributes_counterexample:
  "QXmppExternalService_toXml id
     \<lparr>host = [], type = ''turn'', action = None, expires = None,
       name = None, password = None, port = None, restricted = None,
       transport = None, username = None\<rparr> [] =
     [StartElement ''service'', Attribute ''type'' ''turn'', EndElement]"
  by code_simp

section \<open>Lists\<close>

lemma foldl_filter_snoc_map:
  "foldl (\<lambda>acc x. if P x then acc @ [f x] else acc) acc xs = acc @ map f (filter P xs)"
  by (induction xs arbitrary: acc) simp_all

text \<open>
  Claim C6. \<open>parseElementFromChild\<close> appends to the list of services one ExternalService
  for every child element of the services container that \<open>isExternalService\<close> accepts, parsed
  from that child, in document order, and nothing for any other child: with N accepted
  children among M others the list grows by exactly N entries.
\<close>

theorem services_list_order:
  "parseElementFromChild dfs element services =
     services @
     map (\<lambda>el. QXmppExternalService_parse dfs el newExternalService)
       (filter isExternalService (iterChildElements (firstChildElementNamed element ''services''))) \<and>
   length (parseElementFromChild dfs element []) =
     length (filter isExternalService (iterChildElements (firstChildElementNamed element ''services'')))"
  by (simp add: parseElementFromChild_def foldl_filter_snoc_map)

theorem services_list_order_witness:
  "map host (parseElementFromChild id
     (QDomElement ''iq'' [] [(''type'', ''result'')]
        [QDomElement ''services'' ''urn:xmpp:extdisco:2'' []
           [QDomElement ''service'' ''urn:xmpp:extdisco:2'' [(''host'', ''a.example''), (''type'', ''stun'')] [],
            QDomElement ''service'' ''urn:xmpp:extdisco:2'' [(''type'', ''turn'')] [],
            QDomElement ''other'' ''urn:xmpp:extdisco:2'' [(''host'', ''x.example''), (''type'', ''stun'')] [],
            QDomElement ''service'' ''urn:xmpp:extdisco:2'' [(''host'', ''b.example''), (''type'', ''turn'')] [],
            QDomElement ''service'' ''urn:xmpp:extdisco:2'' [(''host'', []), (''type'', ''turn'')] [],
            QDomElement ''service'' ''urn:xmpp:extdisco:2'' [(''host'', ''c.example''), (''type'', ''turn'')] []]])
     []) = [''a.example'', ''b.example'', ''c.example'']"
  using services_list_order [of id
     "QDomElement ''iq'' [] [(''type'', ''result'')]
        [QDomElement ''services'' ''urn:xmpp:extdisco:2'' []
           [QDomElement ''service'' ''urn:xmpp:extdisco:2'' [(''host'', ''a.example''), (''type'', ''stun'')] [],
            QDomElement ''service'' ''urn:xmpp:extdisco:2'' [(''type'', ''turn'')] [],
            QDomElement ''other'' ''urn:xmpp:extdisco:2'' [(''host'', ''x.example''), (''type'', ''stun'')] [],
            QDomElement ''service'' ''urn:xmpp:extdisco:2'' [(''host'', ''b.example''), (''type'', ''turn'')] [],
            QDomElement ''service'' ''urn:xmpp:extdisco:2'' [(''host'', []), (''type'', ''turn'')] [],
            QDomElement ''service'' ''urn:xmpp:extdisco:2'' [(''host'', ''c.example''), (''type'', ''turn'')] []]]"
     "[]"]
  by (simp add: firstChildElementNamed_def iterChildElements_def childElements_def
      isExternalService_def attribute_def parse_host comp_def)

text \<open>
  Claim C10. \<open>QXmppOmemoDeviceList::parse\<close> appends one DeviceElement for every child element
  whose tag name is device, in document order, whatever its namespace: a child that
  \<open>isOmemoDeviceElement\<close> rejects still gives an entry.
\<close>

theorem deviceList_parse_unfiltered:
  "QXmppOmemoDeviceList_parse el l =
     l @ map (\<lambda>device. QXmppOmemoDeviceElement_parse device newOmemoDeviceElement)
           (filter (\<lambda>c. tagName c = ''device'') (childElements el)) \<and>
   length (QXmppOmemoDeviceList_parse el []) =
     length (filter (\<lambda>c. tagName c = ''device'') (childElements el)) \<and>
   (\<forall>c\<in>set (childElements el). tagName c = ''device'' \<and> \<not> isOmemoDeviceElement c \<longrightarrow>
      QXmppOmemoDeviceElement_parse c newOmemoDeviceElement \<in> set (QXmppOmemoDeviceList_parse el l))"
  by (simp add: QXmppOmemoDeviceList_parse_def iterChildElementsNamed_def foldl_snoc_map)

theorem deviceList_parse_unfiltered_witness:
  "\<not> isOmemoDeviceElement (QDomElement ''device'' ''urn:example:other'' [(''id'', ''5'')] []) \<and>
   QXmppOmemoDeviceList_parse
     (QDomElement ''devices'' ns_omemo_2 []
        [QDomElement ''device'' ns_omemo_2 [(''id'', ''4''), (''label'', ''a'')] [],
         QDomElement ''device'' ''urn:example:other'' [(''id'', ''5'')] [],
         QDomElement ''note'' ns_omemo_2 [(''id'', ''6'')] []]) [] =
     [\<lparr>m_id = 4, m_label = ''a''\<rparr>, \<lparr>m_id = 5, m_label = []\<rparr>]"
proof -
  let ?el = "QDomElement ''devices'' ns_omemo_2 []
        [QDomElement ''device'' ns_omemo_2 [(''id'', ''4''), (''label'', ''a'')] [],
         QDomElement ''device'' ''urn:example:other'' [(''id'', ''5'')] [],
         QDomElement ''note'' ns_omemo_2 [(''id'', ''6'')] []]"
  have 1: "\<not> isOmemoDeviceElement (QDomElement ''device'' ''urn:example:other'' [(''id'', ''5'')] [])"
    by (simp add: isOmemoDeviceElement_def ns_omemo_2_def)
  have 2: "toInt ''4'' = 4" "toInt ''5'' = 5" by code_simp+
  from deviceList_parse_unfiltered [of ?el "[]"]
  have "QXmppOmemoDeviceList_parse ?el [] =
     [\<lparr>m_id = 4, m_label = ''a''\<rparr>, \<lparr>m_id = 5, m_label = []\<rparr>]"
    by (simp add: childElements_def QXmppOmemoDeviceElement_parse_def attribute_def
        newOmemoDeviceElement_def 2)
  with 1 show ?thesis by blast
qed

section \<open>The restricted attribute and the ID 0\<close>

text \<open>
  Claim C8. Parsing into a default-constructed ExternalService, the restricted field is
  unset when the element has no restricted attribute; when it has one the field is set, to
  true exactly for the tokens \<^verbatim>\<open>true\<close> and \<^verbatim>\<open>1\<close> and to false for any other text.
\<close>

theorem restricted_codec:
  "restricted (QXmppExternalService_parse dfs el newExternalService) =
     (if contains el ''restricted''
      then Some (attribute el ''restricted'' = ''true'' \<or> attribute el ''restricted'' = ''1'')
      else None)"
  by (simp add: parse_restricted newExternalService_def)

theorem restricted_codec_witness:
  "restricted (QXmppExternalService_parse id
      (QDomElement ''service'' [] [(''host'', ''h''), (''type'', ''t''), (''restricted'', ''1'')] [])
      newExternalService) = Some True \<and>
   restricted (QXmppExternalService_parse id
      (QDomElement ''service'' [] [(''host'', ''h''), (''type'', ''t''), (''restricted'', ''true'')] [])
      newExternalService) = Some True \<and>
   restricted (QXmppExternalService_parse id
      (QDomElement ''service'' [] [(''host'', ''h''), (''type'', ''t''), (''restricted'', ''TRUE'')] [])
      newExternalService) = Some False \<and>
   restricted (QXmppExternalService_parse id
      (QDomElement ''service'' [] [(''host'', ''h''), (''type'', ''t''), (''restricted'', [])] [])
      newExternalService) = Some False \<and>
   restricted (QXmppExternalService_parse id
      (QDomElement ''service'' [] [(''host'', ''h''), (''type'', ''t'')] [])
      newExternalService) = None"
  using restricted_codec [of id
      "QDomElement ''service'' [] [(''host'', ''h''), (''type'', ''t''), (''restricted'', ''1'')] []"]
    restricted_codec [of id
      "QDomElement ''service'' [] [(''host'', ''h''), (''type'', ''t''), (''restricted'', ''true'')] []"]
    restricted_codec [of id
      "QDomElement ''service'' [] [(''host'', ''h''), (''type'', ''t''), (''restricted'', ''TRUE'')] []"]
    restricted_codec [of id
      "QDomElement ''service'' [] [(''host'', ''h''), (''type'', ''t''), (''restricted'', [])] []"]
    restricted_codec [of id
      "QDomElement ''service'' [] [(''host'', ''h''), (''type'', ''t'')] []"]
  by (simp add: contains_def attribute_def)

text \<open>
  Claim C9. A DeviceElement with ID 0 is written with the id attribute \<^verbatim>\<open>0\<close>, parsing what
  was written gives the same DeviceElement back, and parsing any element whose id attribute
  is \<^verbatim>\<open>0\<close> gives ID 0: the parser does not reject it.
\<close>

theorem device_id_zero:
  assumes "m_id d = 0"
  shows "attributesWritten (QXmppOmemoDeviceElement_toXml d []) =
           (''id'', ''0'') # (if m_label d = [] then [] else [(''label'', m_label d)]) \<and>
         reparseDeviceElement d = Some d \<and>
         m_id (QXmppOmemoDeviceElement_parse (QDomElement t ns [(''id'', ''0'')] cs) this) = 0"
proof -
  have "uint (m_id d) < 2 ^ 31" using assms by simp
  then have "reparseDeviceElement d = Some d" by (rule reparse_device)
  moreover have "toInt ''0'' = 0" by code_simp
  ultimately show ?thesis
    using assms
    by (simp add: device_attributesWritten optionalAttribute_def number_0
        QXmppOmemoDeviceElement_parse_def attribute_element)
qed

theorem device_id_zero_witness:
  "m_id \<lparr>m_id = 0, m_label = ''phone''\<rparr> = 0 \<and>
   attributesWritten (QXmppOmemoDeviceElement_toXml \<lparr>m_id = 0, m_label = ''phone''\<rparr> []) =
     [(''id'', ''0''), (''label'', ''phone'')] \<and>
   reparseDeviceElement \<lparr>m_id = 0, m_label = ''phone''\<rparr> = Some \<lparr>m_id = 0, m_label = ''phone''\<rparr> \<and>
   m_id (QXmppOmemoDeviceElement_parse (QDomElement ''device'' ns_omemo_2 [(''id'', ''0'')] [])
           newOmemoDeviceElement) = 0"
  using device_id_zero [of "\<lparr>m_id = 0, m_label = ''phone''\<rparr>" "''device''" ns_omemo_2 "[]"
      newOmemoDeviceElement]
  by simp

section \<open>The examples of the specification\<close>

text \<open>
  The two worked examples: a service element with host, type, port and transport parses to
  exactly these four fields and is written back with exactly these four attributes; a bundle
  whose prekeys container has the pre-keys 1 and 2 parses to two pre-keys, and after removing
  pre-key 1 it is written with the single pre-key 2.
\<close>

lemma example_service_parse:
  "QXmppExternalService_parse id
     (QDomElement ''service'' []
        [(''host'', ''turn.example.com''), (''type'', ''turn''), (''port'', ''3478''),
         (''transport'', ''udp'')] [])
     newExternalService =
   \<lparr>host = ''turn.example.com'', type = ''turn'', action = None, expires = None, name = None,
    password = None, port = Some 3478, restricted = None, transport = Some Udp,
    username = None\<rparr>"
  by code_simp

lemma example_service_toXml:
  "QXmppExternalService_toXml id
     \<lparr>host = ''turn.example.com'', type = ''turn'', action = None, expires = None, name = None,
      password = None, port = Some 3478, restricted = None, transport = Some Udp,
      username = None\<rparr> [] =
   [StartElement ''service'', Attribute ''host'' ''turn.example.com'', Attribute ''type'' ''turn'',
    Attribute ''port'' ''3478'', Attribute ''transport'' ''udp'', EndElement]"
  by code_simp

lemma example_bundle_prekeys:
  "m_publicPreKeys
     (QXmppOmemoDeviceBundle_parse fromBase64
        (QDomElement ''bundle'' ns_omemo_2 []
           [QDomElement ''prekeys'' ns_omemo_2 []
              [QDomElement ''pk'' ns_omemo_2 [(''id'', ''1'')] [QDomText ''AQID''],
               QDomElement ''pk'' ns_omemo_2 [(''id'', ''2'')] [QDomText ''BAU='']]])
        newOmemoDeviceBundle) = [(1, [1, 2, 3]), (2, [4, 5])]"
  by code_simp

lemma example_bundle_remove:
  "readElement
     (QXmppOmemoDeviceBundle_toXml toBase64
        (removePublicPreKey 1
           (QXmppOmemoDeviceBundle_parse fromBase64
              (QDomElement ''bundle'' ns_omemo_2 []
                 [QDomElement ''prekeys'' ns_omemo_2 []
                    [QDomElement ''pk'' ns_omemo_2 [(''id'', ''1'')] [QDomText ''AQID''],
                     QDomElement ''pk'' ns_omemo_2 [(''id'', ''2'')] [QDomText ''BAU='']]])
              newOmemoDeviceBundle)) []) =
   Some (QDomElement ''bundle'' ns_omemo_2 []
           [QDomElement ''ik'' ns_omemo_2 [] [],
            QDomElement ''spk'' ns_omemo_2 [(''id'', ''0'')] [],
            QDomElement ''spks'' ns_omemo_2 [] [],
            QDomElement ''prekeys'' ns_omemo_2 []
              [QDomElement ''pk'' ns_omemo_2 [(''id'', ''2'')] [QDomText ''BAU='']]])"
  by code_simp

end
